theory Spec2Isabelle
  imports Complex_Main "HOL-Library.AList"
begin

section \<open>Conventions of the embedding\<close>

text \<open>
  The analyzers of \<^verbatim>\<open>jeevanfit/analyzers\<close> are embedded as HOL functions.
  Python floats are read as exact reals (see below for the float range), Python ints
  as \<open>int\<close> or \<open>nat\<close>, a
  \<^verbatim>\<open>datetime\<close> as an integer count of microseconds (naive datetimes are totally
  ordered by it), a \<^verbatim>\<open>str\<close> as \<open>string\<close>, and a Python \<^verbatim>\<open>dict\<close> as an
  association list in insertion order with unique keys.  Every \<^verbatim>\<open>raise\<close> the
  analyzers can reach (the \<^verbatim>\<open>statistics\<close> module on short data, a missing dict key,
  \<^verbatim>\<open>max\<close> of an empty sequence, a pydantic field constraint, a float operation that
  raises \<^verbatim>\<open>OverflowError\<close>) is a value \<open>Inl e\<close> of
  the result type \<open>error + 'a\<close>; Python's \<^verbatim>\<open>None\<close> is \<open>None\<close>.

  Names follow the source.  Record fields that several models share carry a prefix
  (\<open>pattern_metric\<close>, \<open>corr_strength\<close>, \<open>fc_confidence\<close>, \<open>sleep_duration\<close>, \<dots>), the local
  \<^verbatim>\<open>values\<close> is written \<open>vals\<close>, and the member \<^verbatim>\<open>RetentionFactorType.STRESS\<close> is
  \<open>STRESS_FACTOR\<close>, since \<^verbatim>\<open>HabitType.STRESS\<close> already owns the name.
\<close>

datatype error = StatisticsError | ValidationError | KeyError | ValueError | OverflowError

definition bind_res :: "error + 'a \<Rightarrow> ('a \<Rightarrow> error + 'b) \<Rightarrow> error + 'b" where
  "bind_res m f = (case m of Inl e \<Rightarrow> Inl e | Inr x \<Rightarrow> f x)"

fun mapM_res :: "('a \<Rightarrow> error + 'b) \<Rightarrow> 'a list \<Rightarrow> error + 'b list" where
  "mapM_res f [] = Inr []"
| "mapM_res f (x # xs) =
     bind_res (f x) (\<lambda>y. bind_res (mapM_res f xs) (\<lambda>ys. Inr (y # ys)))"

subsection \<open>The float range\<close>

text \<open>
  A real number rounds to an infinite double when its magnitude reaches
  \<open>2\<^sup>1\<^sup>0\<^sup>2\<^sup>4 - 2\<^sup>9\<^sup>7\<^sup>0\<close>, half a unit in the last place above the
  largest finite double.  Float addition, subtraction, multiplication and division
  return the infinity silently; two operations of the analyzers raise instead:
  \<^verbatim>\<open>x ** 2\<close> raises \<^verbatim>\<open>OverflowError\<close> when the square is out of range, and
  \<^verbatim>\<open>int(x)\<close> raises \<^verbatim>\<open>OverflowError\<close> on an infinite \<open>x\<close>.
\<close>

definition float_overflows :: "real \<Rightarrow> bool" where
  "float_overflows r \<longleftrightarrow> \<bar>r\<bar> \<ge> 2 ^ 1024 - 2 ^ 970"

definition float_pow2 :: "real \<Rightarrow> error + real" where
  "float_pow2 x = (if float_overflows (x\<^sup>2) then Inl OverflowError else Inr (x\<^sup>2))"


subsection \<open>The \<^verbatim>\<open>statistics\<close> module\<close>

text \<open>\<^verbatim>\<open>statistics.mean\<close> raises on empty data; \<^verbatim>\<open>statistics.stdev\<close> is the sample
  standard deviation (divisor \<open>n - 1\<close>) and raises on fewer than two points.\<close>

definition statistics_mean :: "real list \<Rightarrow> error + real" where
  "statistics_mean xs =
     (if xs = [] then Inl StatisticsError
      else Inr (sum_list xs / real (length xs)))"

definition statistics_stdev :: "real list \<Rightarrow> error + real" where
  "statistics_stdev xs =
     (if length xs < 2 then Inl StatisticsError
      else bind_res (statistics_mean xs) (\<lambda>m.
        Inr (sqrt ((\<Sum>x\<leftarrow>xs. (x - m)\<^sup>2) / real (length xs - 1)))))"

subsection \<open>Dictionaries\<close>

type_synonym ('k, 'v) dict = "('k \<times> 'v) list"

text \<open>The comprehension \<^verbatim>\<open>{t: v for t, v in data}\<close>: each pair is stored in turn; a key
  already present keeps its position and takes the new value.\<close>

definition dict_of :: "('k \<times> 'v) list \<Rightarrow> ('k, 'v) dict" where
  "dict_of data = foldl (\<lambda>d (t, v). AList.update t v d) [] data"

definition dict_keys :: "('k, 'v) dict \<Rightarrow> 'k list" where
  "dict_keys d = map fst d"

definition dict_get :: "('k, 'v) dict \<Rightarrow> 'k \<Rightarrow> error + 'v" where
  "dict_get d k = (case map_of d k of None \<Rightarrow> Inl KeyError | Some v \<Rightarrow> Inr v)"

section \<open>Core data models\<close>

text \<open>The pydantic models of \<^verbatim>\<open>models/core.py\<close>.  A \<^verbatim>\<open>time\<close> of day is an integer as
  well.  The field constraints of these input models are checked when the caller builds
  them, before any analyzer runs.\<close>

type_synonym datetime = int

datatype BodyTypeClassification = ECTOMORPH | MESOMORPH | ENDOMORPH | MIXED

datatype HabitType = EXERCISE | STRESS | SCREEN_TIME | CAFFEINE | ALCOHOL | OTHER

record NutritionalInfo =
  calories :: real
  protein :: real
  carbohydrates :: real
  fat :: real
  sodium :: real
  sugar :: real
  fiber :: real
  preservatives :: "string list"
  processing_level :: int

record FoodItem =
  food_name :: string
  serving_size :: real
  food_unit :: string
  nutritional_info :: NutritionalInfo

record SleepData =
  sleep_duration :: real
  sleep_quality :: int
  bedtime :: int
  wake_time :: int
  interruptions :: int
  sleep_timestamp :: datetime

record Habit =
  habit_type :: HabitType
  habit_intensity :: int
  habit_duration :: "real option"
  habit_timing :: "int option"
  habit_notes :: "string option"

record BodyType =
  classification :: BodyTypeClassification
  characteristics :: "string list"
  body_user_id :: string

record LifestyleInput =
  food_items :: "FoodItem list"
  water_intake :: real
  sleep_data :: "SleepData option"
  daily_habits :: "Habit list"
  input_timestamp :: datetime
  input_user_id :: string
  input_notes :: "string option"

section \<open>Trend analyzer: data model\<close>

datatype TrendType = INCREASING | DECREASING | STABLE | CYCLICAL

fun TrendType_value :: "TrendType \<Rightarrow> string" where
  "TrendType_value INCREASING = ''increasing''"
| "TrendType_value DECREASING = ''decreasing''"
| "TrendType_value STABLE = ''stable''"
| "TrendType_value CYCLICAL = ''cyclical''"

datatype CausalityLevel = LIKELY | POSSIBLE | UNLIKELY

record TimeRange =
  range_start :: datetime
  range_end :: datetime

record Pattern =
  pattern_metric :: string
  pattern_trend :: TrendType
  pattern_confidence :: real
  pattern_description :: string
  pattern_time_range :: TimeRange

record Correlation =
  corr_metric1 :: string
  corr_metric2 :: string
  corr_strength :: real
  corr_description :: string
  corr_causality :: CausalityLevel


text \<open>The pydantic constructors check the declared field ranges:
  \<^verbatim>\<open>confidence: float = Field(ge=0, le=100)\<close> and
  \<^verbatim>\<open>strength: float = Field(ge=-1, le=1)\<close>.\<close>

definition mk_Pattern ::
  "string \<Rightarrow> TrendType \<Rightarrow> real \<Rightarrow> string \<Rightarrow> TimeRange \<Rightarrow> error + Pattern" where
  "mk_Pattern m t c d r =
     (if 0 \<le> c \<and> c \<le> 100
      then Inr \<lparr>pattern_metric = m, pattern_trend = t, pattern_confidence = c,
                pattern_description = d, pattern_time_range = r\<rparr>
      else Inl ValidationError)"

definition mk_Correlation ::
  "string \<Rightarrow> string \<Rightarrow> real \<Rightarrow> string \<Rightarrow> CausalityLevel \<Rightarrow> error + Correlation" where
  "mk_Correlation m1 m2 s d c =
     (if - 1 \<le> s \<and> s \<le> 1
      then Inr \<lparr>corr_metric1 = m1, corr_metric2 = m2, corr_strength = s,
                corr_description = d, corr_causality = c\<rparr>
      else Inl ValidationError)"

section \<open>Trend analyzer: alignment of two series\<close>

text \<open>\<^verbatim>\<open>_align_time_series\<close>: both series become dicts, the common keys are sorted,
  and each common timestamp is looked up in both dicts.\<close>

definition align_time_series ::
  "(datetime \<times> real) list \<Rightarrow> (datetime \<times> real) list
     \<Rightarrow> error + (datetime \<times> real \<times> real) list" where
  "align_time_series data1 data2 =
     (let dict1 = dict_of data1;
          dict2 = dict_of data2;
          common_timestamps = set (dict_keys dict1) \<inter> set (dict_keys dict2)
      in mapM_res
           (\<lambda>t. bind_res (dict_get dict1 t) (\<lambda>v1.
                 bind_res (dict_get dict2 t) (\<lambda>v2. Inr (t, v1, v2))))
           (sorted_list_of_set common_timestamps))"

section \<open>Trend analyzer: correlation\<close>

text \<open>\<^verbatim>\<open>_calculate_correlation\<close>.  The indices run over \<^verbatim>\<open>range(n)\<close> with
  \<open>n\<close> the common length, so every \<open>!\<close> below is in range.\<close>

definition calculate_correlation :: "real list \<Rightarrow> real list \<Rightarrow> error + real" where
  "calculate_correlation values1 values2 =
     (if length values1 \<noteq> length values2 \<or> length values1 < 2 then Inr 0
      else
        let n = length values1 in
        bind_res (statistics_mean values1) (\<lambda>mean1.
        bind_res (statistics_mean values2) (\<lambda>mean2.
        let numerator = (\<Sum>i\<leftarrow>[0..<n]. (values1 ! i - mean1) * (values2 ! i - mean2)) in
        bind_res (if length values1 > 1 then statistics_stdev values1 else Inr 0) (\<lambda>std1.
        bind_res (if length values2 > 1 then statistics_stdev values2 else Inr 0) (\<lambda>std2.
        let denominator = std1 * std2 * real n in
        if denominator = 0 then Inr 0
        else Inr (numerator / denominator))))))"

text \<open>\<^verbatim>\<open>str.lower\<close> on the ASCII letters (the keys of the table below are ASCII).\<close>

definition lower_char :: "char \<Rightarrow> char" where
  "lower_char c =
     (let k = (of_char c :: nat) in if 65 \<le> k \<and> k \<le> 90 then char_of (k + 32) else c)"

definition str_lower :: "string \<Rightarrow> string" where
  "str_lower s = map lower_char s"

definition causal_pairs :: "(string \<times> string, CausalityLevel) dict" where
  "causal_pairs =
     [((''caffeine'', ''sleep_quality''), LIKELY),
      ((''sodium'', ''water_retention''), LIKELY),
      ((''water_intake'', ''water_retention''), LIKELY),
      ((''sleep_quality'', ''stress''), POSSIBLE),
      ((''food_quality'', ''energy''), LIKELY)]"

text \<open>\<^verbatim>\<open>_assess_causality\<close>: \<^verbatim>\<open>if k in d: return d[k]\<close> is one lookup.\<close>

definition assess_causality :: "string \<Rightarrow> string \<Rightarrow> real \<Rightarrow> CausalityLevel" where
  "assess_causality metric1 metric2 correlation_strength =
     (let pair_key = (str_lower metric1, str_lower metric2);
          reverse_key = (str_lower metric2, str_lower metric1)
      in case map_of causal_pairs pair_key of
           Some c \<Rightarrow> c
         | None \<Rightarrow>
             (case map_of causal_pairs reverse_key of
                Some c \<Rightarrow> c
              | None \<Rightarrow>
                  if \<bar>correlation_strength\<bar> > 0.7 then POSSIBLE else UNLIKELY))"

definition detect_correlations ::
  "string \<Rightarrow> string \<Rightarrow> string \<Rightarrow> (datetime \<times> real) list \<Rightarrow> (datetime \<times> real) list
     \<Rightarrow> error + Correlation option" where
  "detect_correlations user_id metric1 metric2 data1 data2 =
     (if length data1 < 3 \<or> length data2 < 3 then Inr None
      else
        bind_res (align_time_series data1 data2) (\<lambda>aligned_data.
        if length aligned_data < 3 then Inr None
        else
          let values1 = map (\<lambda>(t, v1, v2). v1) aligned_data;
              values2 = map (\<lambda>(t, v1, v2). v2) aligned_data
          in
          bind_res (calculate_correlation values1 values2) (\<lambda>correlation_strength.
          if \<bar>correlation_strength\<bar> < 0.3 then Inr None
          else
            let causality = assess_causality metric1 metric2 correlation_strength;
                direction = (if correlation_strength > 0 then ''positive'' else ''negative'');
                strength_desc = (if \<bar>correlation_strength\<bar> > 0.7 then ''strong'' else ''moderate'');
                description = ''A '' @ strength_desc @ '' '' @ direction
                  @ '' correlation exists between '' @ metric1 @ '' and '' @ metric2
            in
            bind_res (mk_Correlation metric1 metric2 correlation_strength description causality)
              (\<lambda>c. Inr (Some c)))))"

section \<open>Trend analyzer: trend of one series\<close>

text \<open>\<^verbatim>\<open>_detect_pattern\<close>: least squares of the values against the index
  \<^verbatim>\<open>x = list(range(n))\<close>.  The squares of the value deviations and of the residuals
  go through \<open>float_pow2\<close>, the generator sums stopping at the first square that
  raises.  The squares of the index deviations are exact: an index deviation is below
  the length of the list, and its square is inside the float range for any list that
  fits a machine.  \<^verbatim>\<open>statistics.stdev\<close> works on exact fractions and overflows only
  when a squared deviation is far out of the float range, where the sum of squares
  raises the same error.\<close>

definition detect_pattern ::
  "string \<Rightarrow> (datetime \<times> real) list \<Rightarrow> TimeRange \<Rightarrow> error + Pattern option" where
  "detect_pattern metric time_series time_range =
     (if length time_series < 3 then Inr None
      else
        let vals = map snd time_series;
            n = length vals;
            x = map real [0..<n]
        in
        bind_res (statistics_mean x) (\<lambda>mean_x.
        bind_res (statistics_mean vals) (\<lambda>mean_y.
        let numerator = (\<Sum>i\<leftarrow>[0..<n]. (x ! i - mean_x) * (vals ! i - mean_y));
            denominator = (\<Sum>i\<leftarrow>[0..<n]. (x ! i - mean_x)\<^sup>2)
        in
        bind_res
          (if denominator = 0 then Inr (STABLE, 95)
           else
             let slope = numerator / denominator in
             bind_res (if length vals > 1 then statistics_stdev vals else Inr 0) (\<lambda>std_dev.
             let threshold = std_dev * 0.1;
                 trend = (if \<bar>slope\<bar> < threshold then STABLE
                          else if slope > 0 then INCREASING
                          else DECREASING)
             in
             bind_res (mapM_res (\<lambda>v. float_pow2 (v - mean_y)) vals) (\<lambda>squares_tot.
             let ss_tot = sum_list squares_tot;
                 predicted = map (\<lambda>i. mean_y + slope * (real i - mean_x)) [0..<n]
             in
             bind_res (mapM_res (\<lambda>i. float_pow2 (vals ! i - predicted ! i)) [0..<n])
               (\<lambda>squares_res.
             let ss_res = sum_list squares_res;
                 r_squared = (if ss_tot > 0 then 1 - ss_res / ss_tot else 0);
                 confidence = max 50 (min 100 (r_squared * 100))
             in Inr (trend, confidence)))))
          (\<lambda>(trend, confidence).
             let description = ''The '' @ metric @ '' shows a '' @ TrendType_value trend
                   @ '' trend over the analyzed period''
             in bind_res (mk_Pattern metric trend confidence description time_range)
                  (\<lambda>p. Inr (Some p))))))"

section \<open>Trend analyzer: significant change\<close>







section \<open>Food classifier\<close>

text \<open>\<^verbatim>\<open>analyzers/food_classifier.py\<close>.  The rationale sentence of a classification is
  assembled from the same tests as the dominant factors and interpolates formatted
  floats; it feeds nothing back into category, scores or confidence, and the record below
  keeps the category, the confidence and the dominant factors.\<close>

datatype FoodCategory = HEALTHY | JUNK | PRESERVATIVE_HEAVY

record FSIParameters =
  nutrient_density :: real
  processing_score :: real
  preservative_load :: real
  sugar_content :: real
  sodium_level :: real

record FoodClassification =
  fc_category :: FoodCategory
  fc_confidence :: real
  fc_dominant_factors :: "string list"

definition mk_FoodClassification ::
  "FoodCategory \<Rightarrow> real \<Rightarrow> string list \<Rightarrow> error + FoodClassification" where
  "mk_FoodClassification c conf fs =
     (if 0 \<le> conf \<and> conf \<le> 100
      then Inr \<lparr>fc_category = c, fc_confidence = conf, fc_dominant_factors = fs\<rparr>
      else Inl ValidationError)"

definition NUTRIENT_DENSITY_HEALTHY_THRESHOLD :: real where
  "NUTRIENT_DENSITY_HEALTHY_THRESHOLD = 0.7"

definition NUTRIENT_DENSITY_JUNK_THRESHOLD :: real where
  "NUTRIENT_DENSITY_JUNK_THRESHOLD = 0.3"

definition PROCESSING_HEALTHY_MAX :: int where
  "PROCESSING_HEALTHY_MAX = 2"

definition PROCESSING_JUNK_MIN :: int where
  "PROCESSING_JUNK_MIN = 4"

definition PRESERVATIVE_COUNT_THRESHOLD :: nat where
  "PRESERVATIVE_COUNT_THRESHOLD = 3"

definition SUGAR_JUNK_THRESHOLD :: real where
  "SUGAR_JUNK_THRESHOLD = 15"

definition SODIUM_JUNK_THRESHOLD :: real where
  "SODIUM_JUNK_THRESHOLD = 600"

definition get_fsi_parameters :: "FoodItem \<Rightarrow> FSIParameters" where
  "get_fsi_parameters food_item =
     (let nutrition = nutritional_info food_item;
          nutrient_density =
            (if calories nutrition > 1.0
             then min 1.0 ((protein nutrition + fiber nutrition) / (calories nutrition / 100))
             else 0.0);
          processing_score = (5 - real_of_int (processing_level nutrition)) / 4.0;
          preservative_count = length (preservatives nutrition);
          preservative_load = min 1.0 (real preservative_count / 5.0);
          sugar_content = min 1.0 (sugar nutrition / 30.0);
          sodium_level = min 1.0 (sodium nutrition / 1000.0)
      in \<lparr>nutrient_density = nutrient_density, processing_score = processing_score,
           preservative_load = preservative_load, sugar_content = sugar_content,
           sodium_level = sodium_level\<rparr>)"

text \<open>\<^verbatim>\<open>_calculate_category_scores\<close>; the returned dict has its three keys in the order
  of the dict literal.\<close>

definition calculate_category_scores ::
  "FoodItem \<Rightarrow> FSIParameters \<Rightarrow> (FoodCategory, real) dict" where
  "calculate_category_scores food_item fsi_params =
     (let nutrition = nutritional_info food_item;
          healthy_score =
            nutrient_density fsi_params * 0.4 +
            processing_score fsi_params * 0.3 +
            (1 - preservative_load fsi_params) * 0.15 +
            (1 - sugar_content fsi_params) * 0.075 +
            (1 - sodium_level fsi_params) * 0.075;
          junk_score =
            (1 - nutrient_density fsi_params) * 0.3 +
            (1 - processing_score fsi_params) * 0.3 +
            sugar_content fsi_params * 0.2 +
            sodium_level fsi_params * 0.2;
          preservative_score = preservative_load fsi_params;
          preservative_score =
            (if length (preservatives nutrition) \<ge> PRESERVATIVE_COUNT_THRESHOLD
             then max preservative_score 0.8 else preservative_score);
          junk_score =
            (if processing_level nutrition \<ge> PROCESSING_JUNK_MIN
             then max junk_score 0.7 else junk_score);
          junk_score =
            (if sugar nutrition > SUGAR_JUNK_THRESHOLD
             then max junk_score 0.6 else junk_score);
          junk_score =
            (if sodium nutrition > SODIUM_JUNK_THRESHOLD
             then max junk_score 0.6 else junk_score)
      in [(HEALTHY, healthy_score), (JUNK, junk_score),
          (PRESERVATIVE_HEAVY, preservative_score)])"

text \<open>\<^verbatim>\<open>max(scores, key=scores.get)\<close>: the first key, in dict order, whose value is
  not exceeded; \<^verbatim>\<open>max\<close> raises on an empty dict.\<close>

definition max_key :: "('k, real) dict \<Rightarrow> error + 'k" where
  "max_key scores =
     (case scores of
        [] \<Rightarrow> Inl ValueError
      | p # rest \<Rightarrow>
          Inr (fst (foldl (\<lambda>best kv. if snd kv > snd best then kv else best) p rest)))"

definition select_dominant_category ::
  "(FoodCategory, real) dict \<Rightarrow> FoodItem \<Rightarrow> error + FoodCategory" where
  "select_dominant_category scores food_item =
     (let nutrition = nutritional_info food_item in
      if length (preservatives nutrition) \<ge> PRESERVATIVE_COUNT_THRESHOLD
      then Inr PRESERVATIVE_HEAVY
      else
        bind_res (dict_get scores PRESERVATIVE_HEAVY) (\<lambda>preservative_score.
        if preservative_score \<ge> 0.6 then Inr PRESERVATIVE_HEAVY
        else
          bind_res (max_key scores) (\<lambda>max_category.
          bind_res (dict_get scores max_category) (\<lambda>max_score.
          let score_threshold = 0.15 in
          if max_category = HEALTHY then
            bind_res (dict_get scores JUNK) (\<lambda>junk_score.
            if \<bar>junk_score - max_score\<bar> < score_threshold then Inr JUNK
            else Inr max_category)
          else Inr max_category))))"

text \<open>\<^verbatim>\<open>_generate_rationale\<close>, its list of dominant factors.\<close>

definition generate_rationale ::
  "FoodCategory \<Rightarrow> FoodItem \<Rightarrow> FSIParameters \<Rightarrow> (FoodCategory, real) dict \<Rightarrow> string list" where
  "generate_rationale category food_item fsi_params scores =
     (let nutrition = nutritional_info food_item;
          dominant_factors =
            (case category of
               HEALTHY \<Rightarrow>
                 (if nutrient_density fsi_params \<ge> NUTRIENT_DENSITY_HEALTHY_THRESHOLD
                  then [''nutrient_density''] else [])
                 @ (if processing_level nutrition \<le> PROCESSING_HEALTHY_MAX
                    then [''low_processing''] else [])
                 @ (if length (preservatives nutrition) = 0
                    then [''no_preservatives''] else [])
                 @ (if fiber nutrition \<ge> 3 then [''fiber''] else [])
             | JUNK \<Rightarrow>
                 (if sugar nutrition > SUGAR_JUNK_THRESHOLD then [''high_sugar''] else [])
                 @ (if sodium nutrition > SODIUM_JUNK_THRESHOLD then [''high_sodium''] else [])
                 @ (if processing_level nutrition \<ge> PROCESSING_JUNK_MIN
                    then [''high_processing''] else [])
                 @ (if nutrient_density fsi_params < NUTRIENT_DENSITY_JUNK_THRESHOLD
                    then [''low_nutrients''] else [])
             | PRESERVATIVE_HEAVY \<Rightarrow>
                 [''preservatives'']
                 @ (if processing_level nutrition \<ge> PROCESSING_JUNK_MIN
                    then [''high_processing''] else []))
      in if dominant_factors = [] then [''overall_composition''] else dominant_factors)"

text \<open>\<^verbatim>\<open>_calculate_confidence\<close>: \<^verbatim>\<open>max(other_scores)\<close> is taken only after the test
  that the list is not empty.\<close>

definition calculate_confidence ::
  "(FoodCategory, real) dict \<Rightarrow> FoodCategory \<Rightarrow> error + real" where
  "calculate_confidence scores category =
     bind_res (dict_get scores category) (\<lambda>category_score.
     let other_scores = map snd (filter (\<lambda>(c, s). c \<noteq> category) scores) in
     case other_scores of
       [] \<Rightarrow> Inr 95
     | s # rest \<Rightarrow>
         let max_other_score = foldl max s rest;
             separation = category_score - max_other_score;
             confidence = 60 + separation * 70
         in Inr (min 95 (max 60 confidence)))"

definition classify_food :: "FoodItem \<Rightarrow> error + FoodClassification" where
  "classify_food food_item =
     (let fsi_params = get_fsi_parameters food_item;
          scores = calculate_category_scores food_item fsi_params
      in
      bind_res (select_dominant_category scores food_item) (\<lambda>category.
      let dominant_factors = generate_rationale category food_item fsi_params scores in
      bind_res (calculate_confidence scores category) (\<lambda>confidence.
      mk_FoodClassification category confidence dominant_factors)))"

section \<open>Water retention predictor\<close>

text \<open>\<^verbatim>\<open>analyzers/water_retention_predictor.py\<close>.  A retention factor keeps its type and
  its impact; the description, recommendation and explanation texts are templates filled
  with formatted numbers and feed nothing back into impacts, level or confidence.  Every
  factor is built with a literal impact between 1 and 3, inside the declared range
  \<^verbatim>\<open>Field(ge=1, le=10)\<close>.\<close>

datatype RetentionLevel = LOW | MODERATE | HIGH

datatype RetentionFactorType = SODIUM | HYDRATION | SLEEP | HORMONAL | STRESS_FACTOR

record RetentionFactor =
  factor_type :: RetentionFactorType
  impact :: int

record RetentionPrediction =
  level :: RetentionLevel
  rp_confidence :: real
  primary_factor :: RetentionFactor
  contributing_factors :: "RetentionFactor list"

definition mk_RetentionPrediction ::
  "RetentionLevel \<Rightarrow> real \<Rightarrow> RetentionFactor \<Rightarrow> RetentionFactor list
     \<Rightarrow> error + RetentionPrediction" where
  "mk_RetentionPrediction l conf p fs =
     (if 0 \<le> conf \<and> conf \<le> 100
      then Inr \<lparr>level = l, rp_confidence = conf, primary_factor = p,
                contributing_factors = fs\<rparr>
      else Inl ValidationError)"

definition HIGH_SODIUM_THRESHOLD :: real where
  "HIGH_SODIUM_THRESHOLD = 2000"

definition MODERATE_SODIUM_THRESHOLD :: real where
  "MODERATE_SODIUM_THRESHOLD = 1500"

definition LOW_WATER_THRESHOLD :: real where
  "LOW_WATER_THRESHOLD = 1500"

definition OPTIMAL_WATER_MIN :: real where
  "OPTIMAL_WATER_MIN = 2000"

definition OPTIMAL_WATER_MAX :: real where
  "OPTIMAL_WATER_MAX = 3500"

definition VERY_HIGH_WATER_THRESHOLD :: real where
  "VERY_HIGH_WATER_THRESHOLD = 4500"

definition POOR_SLEEP_QUALITY_THRESHOLD :: int where
  "POOR_SLEEP_QUALITY_THRESHOLD = 5"

definition POOR_SLEEP_DURATION_THRESHOLD :: real where
  "POOR_SLEEP_DURATION_THRESHOLD = 6"

definition HIGH_STRESS_INTENSITY :: int where
  "HIGH_STRESS_INTENSITY = 7"

definition BODY_TYPE_SENSITIVITY :: "(BodyTypeClassification, real) dict" where
  "BODY_TYPE_SENSITIVITY =
     [(ECTOMORPH, 0.8), (MESOMORPH, 1.0), (ENDOMORPH, 1.3), (MIXED, 1.1)]"

definition calculate_sodium_factor :: "LifestyleInput \<Rightarrow> RetentionFactor option" where
  "calculate_sodium_factor lifestyle =
     (let total_sodium = (\<Sum>item\<leftarrow>food_items lifestyle. sodium (nutritional_info item));
          impact = (if total_sodium \<ge> HIGH_SODIUM_THRESHOLD then 3
                    else if total_sodium \<ge> MODERATE_SODIUM_THRESHOLD then 2
                    else 0)
      in if impact > 0 then Some \<lparr>factor_type = SODIUM, impact = impact\<rparr> else None)"

definition calculate_hydration_factor :: "LifestyleInput \<Rightarrow> RetentionFactor option" where
  "calculate_hydration_factor lifestyle =
     (let water_intake = water_intake lifestyle in
      if water_intake < LOW_WATER_THRESHOLD
      then Some \<lparr>factor_type = HYDRATION, impact = 2\<rparr>
      else if water_intake > VERY_HIGH_WATER_THRESHOLD
      then Some \<lparr>factor_type = HYDRATION, impact = 1\<rparr>
      else if water_intake < OPTIMAL_WATER_MIN
      then Some \<lparr>factor_type = HYDRATION, impact = 1\<rparr>
      else None)"

definition calculate_sleep_factor :: "LifestyleInput \<Rightarrow> RetentionFactor option" where
  "calculate_sleep_factor lifestyle =
     (case sleep_data lifestyle of
        None \<Rightarrow> None
      | Some sleep \<Rightarrow>
          let poor_quality = (sleep_quality sleep \<le> POOR_SLEEP_QUALITY_THRESHOLD);
              poor_duration = (sleep_duration sleep < POOR_SLEEP_DURATION_THRESHOLD)
          in if poor_quality \<and> poor_duration
             then Some \<lparr>factor_type = SLEEP, impact = 2\<rparr>
             else if poor_quality then Some \<lparr>factor_type = SLEEP, impact = 2\<rparr>
             else if poor_duration then Some \<lparr>factor_type = SLEEP, impact = 1\<rparr>
             else None)"

text \<open>\<^verbatim>\<open>max(h.intensity for h in stress_habits)\<close> is taken after the test that the
  list is not empty.\<close>

definition calculate_stress_factor :: "LifestyleInput \<Rightarrow> RetentionFactor option" where
  "calculate_stress_factor lifestyle =
     (let stress_habits = filter (\<lambda>h. habit_type h = STRESS) (daily_habits lifestyle) in
      case stress_habits of
        [] \<Rightarrow> None
      | h # hs \<Rightarrow>
          let max_stress = foldl max (habit_intensity h) (map habit_intensity hs) in
          if max_stress \<ge> HIGH_STRESS_INTENSITY
          then Some \<lparr>factor_type = STRESS_FACTOR, impact = 2\<rparr>
          else if max_stress \<ge> 5
          then Some \<lparr>factor_type = STRESS_FACTOR, impact = 1\<rparr>
          else None)"

definition append_if :: "'a list \<Rightarrow> 'a option \<Rightarrow> 'a list" where
  "append_if xs opt = (case opt of None \<Rightarrow> xs | Some x \<Rightarrow> xs @ [x])"

text \<open>\<^verbatim>\<open>analyze_retention_factors\<close>; \<^verbatim>\<open>factors.sort(key=..., reverse=True)\<close> is a
  stable sort by decreasing impact.\<close>

definition analyze_retention_factors :: "LifestyleInput \<Rightarrow> RetentionFactor list" where
  "analyze_retention_factors lifestyle =
     (let factors = [];
          factors = append_if factors (calculate_sodium_factor lifestyle);
          factors = append_if factors (calculate_hydration_factor lifestyle);
          factors = append_if factors (calculate_sleep_factor lifestyle);
          factors = append_if factors (calculate_stress_factor lifestyle)
      in sort_key (\<lambda>f. - impact f) factors)"

text \<open>\<^verbatim>\<open>_calculate_confidence\<close> of the predictor.\<close>

definition retention_confidence :: "RetentionFactor list \<Rightarrow> real \<Rightarrow> real" where
  "retention_confidence factors adjusted_score =
     (case map impact factors of
        [] \<Rightarrow> 60
      | i # is \<Rightarrow>
          let max_impact = foldl max i is;
              other_impacts = filter (\<lambda>j. j \<noteq> max_impact) (i # is);
              base_confidence =
                (case other_impacts of
                   [] \<Rightarrow> 85
                 | j # js \<Rightarrow>
                     let second_highest = foldl max j js;
                         separation = max_impact - second_highest
                     in 70 + real_of_int (separation * 10));
              base_confidence =
                (if adjusted_score \<le> 1 \<or> adjusted_score \<ge> 7
                 then base_confidence + 5 else base_confidence)
          in min 95 (max 65 base_confidence))"

text \<open>\<^verbatim>\<open>predict_retention\<close>; \<^verbatim>\<open>max(factors, key=lambda f: f.impact)\<close> keeps the first
  factor of greatest impact.\<close>

definition predict_retention :: "LifestyleInput \<Rightarrow> BodyType \<Rightarrow> error + RetentionPrediction" where
  "predict_retention lifestyle body_type =
     (let factors = analyze_retention_factors lifestyle;
          total_score = (\<Sum>factor\<leftarrow>factors. impact factor);
          sensitivity =
            (case map_of BODY_TYPE_SENSITIVITY (classification body_type) of
               Some s \<Rightarrow> s
             | None \<Rightarrow> 1.0);
          adjusted_score = real_of_int total_score * sensitivity;
          level = (if adjusted_score \<le> 2 then LOW
                   else if adjusted_score \<le> 5 then MODERATE
                   else HIGH);
          primary_factor =
            (case factors of
               f # fs \<Rightarrow> foldl (\<lambda>best g. if impact g > impact best then g else best) f fs
             | [] \<Rightarrow> \<lparr>factor_type = HYDRATION, impact = 1\<rparr>);
          confidence = retention_confidence factors adjusted_score
      in mk_RetentionPrediction level confidence primary_factor factors)"

section \<open>Basic facts about the result type and dictionaries\<close>

lemma bind_res_Inr [simp]: "bind_res (Inr x) f = f x"
  by (simp add: bind_res_def)


lemma mapM_res_total:
  "(\<And>x. x \<in> set xs \<Longrightarrow> f x = Inr (g x)) \<Longrightarrow> mapM_res f xs = Inr (map g xs)"
  by (induction xs) simp_all

lemma float_threshold_pos: "(0::real) < 2 ^ 1024 - 2 ^ 970"
  by simp


lemma float_pow2_0 [simp]: "float_pow2 0 = Inr 0"
  using float_threshold_pos by (simp add: float_pow2_def float_overflows_def)


lemma map_of_foldl_update:
  "map_of (foldl (\<lambda>d (t, v). AList.update t v d) d0 data) = map_of d0 ++ map_of (rev data)"
proof (induction data arbitrary: d0)
  case Nil
  show ?case by simp
next
  case (Cons p data)
  obtain t v where p: "p = (t, v)" by (cases p)
  have "map_of (foldl (\<lambda>d (t, v). AList.update t v d) d0 (p # data))
        = map_of (AList.update t v d0) ++ map_of (rev data)"
    using Cons.IH [of "AList.update t v d0"] by (simp add: p)
  also have "\<dots> = map_of d0 ++ map_of (rev (p # data))"
    by (rule ext) (simp add: p update_conv' map_add_def split: option.splits)
  finally show ?case .
qed

lemma map_of_dict_of: "map_of (dict_of data) = map_of (rev data)"
  by (simp add: dict_of_def map_of_foldl_update)

lemma set_dict_keys: "set (dict_keys (dict_of data)) = fst ` set data"
proof -
  have "set (dict_keys (dict_of data)) = dom (map_of (dict_of data))"
    by (simp add: dict_keys_def dom_map_of_conv_image_fst)
  also have "\<dots> = fst ` set data"
    by (simp add: map_of_dict_of dom_map_of_conv_image_fst)
  finally show ?thesis .
qed

lemma dict_get_member:
  "t \<in> fst ` set data \<Longrightarrow> dict_get (dict_of data) t = Inr (the (map_of (rev data) t))"
proof -
  assume "t \<in> fst ` set data"
  then have "t \<in> dom (map_of (rev data))"
    by (simp add: dom_map_of_conv_image_fst)
  then obtain v where "map_of (rev data) t = Some v" by blast
  then show ?thesis by (simp add: dict_get_def map_of_dict_of)
qed

lemma align_time_series_eq:
  "align_time_series data1 data2 =
     Inr (map (\<lambda>t. (t, the (map_of (rev data1) t), the (map_of (rev data2) t)))
            (sorted_list_of_set (fst ` set data1 \<inter> fst ` set data2)))"
  unfolding align_time_series_def Let_def set_dict_keys
  by (rule mapM_res_total) (simp add: dict_get_member)

lemma common_timestamps_code:
  "sorted_list_of_set (fst ` set data1 \<inter> fst ` set data2)
     = sort (remdups (filter (\<lambda>t. t \<in> fst ` set data2) (map fst data1)))"
proof -
  have "fst ` set data1 \<inter> fst ` set data2
        = set (filter (\<lambda>t. t \<in> fst ` set data2) (map fst data1))"
    by auto
  then show ?thesis by (simp only: sorted_list_of_set_sort_remdups)
qed

section \<open>Duplicate timestamps\<close>

text \<open>
  C10.  When a series contains a timestamp several times, the dict built from it holds
  the value of the last occurrence: for a series \<open>pre @ (t, v) # post\<close> in which \<open>t\<close>
  does not occur again in \<open>post\<close>, looking \<open>t\<close> up gives \<open>v\<close>.  Hence alignment never
  fails and is the sorted list of the common timestamps, each with the last value
  recorded for it in either series (\<open>map_of (rev data)\<close> finds the last occurrence).
\<close>

theorem align_last_write_wins:
  "(t \<notin> fst ` set post \<longrightarrow> dict_get (dict_of (pre @ (t, v) # post)) t = Inr v)
   \<and> align_time_series data1 data2 =
       Inr (map (\<lambda>t. (t, the (map_of (rev data1) t), the (map_of (rev data2) t)))
              (sorted_list_of_set (fst ` set data1 \<inter> fst ` set data2)))"
proof
  show "t \<notin> fst ` set post \<longrightarrow> dict_get (dict_of (pre @ (t, v) # post)) t = Inr v"
  proof
    assume "t \<notin> fst ` set post"
    then have "map_of (rev post) t = None"
      by (simp add: map_of_eq_None_iff)
    then show "dict_get (dict_of (pre @ (t, v) # post)) t = Inr v"
      by (simp add: dict_get_def map_of_dict_of map_add_def)
  qed
  show "align_time_series data1 data2 =
       Inr (map (\<lambda>t. (t, the (map_of (rev data1) t), the (map_of (rev data2) t)))
              (sorted_list_of_set (fst ` set data1 \<inter> fst ` set data2)))"
    by (rule align_time_series_eq)
qed

theorem align_last_write_wins_witness:
  "(1::int) \<notin> fst ` set [(2, 7::real)]
   \<and> dict_get (dict_of ([(1, 3)] @ (1, 5) # [(2, 7::real)])) (1::int) = Inr 5
   \<and> align_time_series [(1, 3), (1, 5), (2, 7)] [(2, 1), (1, 4), (2, 9)]
       = Inr [(1, 5, 4), (2, 7, 9)]"
  using align_last_write_wins [where t = "1::int" and post = "[(2, 7::real)]"
          and pre = "[(1, 3)]" and v = 5
          and ?data1.0 = "[(1, 3), (1, 5), (2, 7)]"
          and ?data2.0 = "[(2, 1), (1, 4), (2, 9)]"]
  unfolding common_timestamps_code
  by simp

section \<open>Trend of a short or constant series\<close>

lemma sum_list_upt_cong:
  "(\<And>i. i < n \<Longrightarrow> f i = g i) \<Longrightarrow> (\<Sum>i\<leftarrow>[0..<n]. f i) = (\<Sum>i\<leftarrow>[0..<n]. g i)"
  by (rule arg_cong [where f = sum_list], rule map_cong) simp_all

lemma mean_replicate: "0 < n \<Longrightarrow> statistics_mean (replicate n c) = Inr c"
  by (simp add: statistics_mean_def sum_list_replicate)

lemma stdev_replicate: "2 \<le> n \<Longrightarrow> statistics_stdev (replicate n c) = Inr 0"
  by (simp add: statistics_stdev_def mean_replicate sum_list_replicate)

text \<open>The spread of the indices \<open>0, \<dots>, n - 1\<close> around any centre is non-zero once there
  are two of them, so the branch \<^verbatim>\<open>if denominator == 0\<close> of \<^verbatim>\<open>_detect_pattern\<close> is
  never taken on a series that passed the length check.\<close>

lemma index_spread_nonzero:
  assumes "2 \<le> n"
  shows "(\<Sum>i\<leftarrow>[0..<n]. (real i - mx)\<^sup>2) \<noteq> 0"
proof
  assume z: "(\<Sum>i\<leftarrow>[0..<n]. (real i - mx)\<^sup>2) = 0"
  have "\<forall>y\<in>set (map (\<lambda>i. (real i - mx)\<^sup>2) [0..<n]). y = 0"
    using z by (subst (asm) sum_list_nonneg_eq_0_iff) auto
  then have "\<forall>i<n. (real i - mx)\<^sup>2 = 0" by auto
  then have "(real 0 - mx)\<^sup>2 = 0 \<and> (real 1 - mx)\<^sup>2 = 0"
    using assms by (metis One_nat_def Suc_1 Suc_le_lessD less_or_eq_imp_le)
  then show False by auto
qed

lemma index_list_nth:
  "(\<Sum>i\<leftarrow>[0..<n]. f (map real [0..<n] ! i) i) = (\<Sum>i\<leftarrow>[0..<n]. f (real i) i)"
  by (rule sum_list_upt_cong) simp

lemma detect_pattern_constant:
  assumes len: "3 \<le> length ts" and const: "\<forall>p\<in>set ts. snd p = c"
  shows "detect_pattern m ts tr =
     Inr (Some \<lparr>pattern_metric = m, pattern_trend = DECREASING, pattern_confidence = 50,
                pattern_description =
                  ''The '' @ m @ '' shows a decreasing trend over the analyzed period'',
                pattern_time_range = tr\<rparr>)"
proof -
  define n where "n = length ts"
  have vals: "map snd ts = replicate n c"
    using const by (simp add: n_def map_replicate_const [symmetric] cong: map_cong)
  have n3: "3 \<le> n" using len by (simp add: n_def)
  have mx: "statistics_mean (map real [0..<n]) = Inr (sum_list (map real [0..<n]) / real n)"
    using n3 by (simp add: statistics_mean_def)
  define mean_x where "mean_x = sum_list (map real [0..<n]) / real n"
  have den: "(\<Sum>i\<leftarrow>[0..<n]. (map real [0..<n] ! i - mean_x)\<^sup>2) \<noteq> 0"
    using index_spread_nonzero [of n mean_x] n3
      index_list_nth [of "\<lambda>x i. (x - mean_x)\<^sup>2" n] by simp
  have num: "(\<Sum>i\<leftarrow>[0..<n]. (map real [0..<n] ! i - mean_x) * (replicate n c ! i - c)) = 0"
    by (subst sum_list_upt_cong [where g = "\<lambda>i. 0"]) simp_all
  have sqt: "mapM_res (\<lambda>v. float_pow2 (v - c)) (replicate n c) = Inr (map (\<lambda>v. 0) (replicate n c))"
    by (rule mapM_res_total) simp
  have sqr: "mapM_res (\<lambda>i. float_pow2 (replicate n c ! i - map (\<lambda>i. c) [0..<n] ! i)) [0..<n]
      = Inr (map (\<lambda>i. 0) [0..<n])"
    by (rule mapM_res_total) simp
  show ?thesis
    unfolding detect_pattern_def Let_def
    using n3 den num
    by (simp add: vals n_def [symmetric] mx mean_x_def [symmetric] mean_replicate
        stdev_replicate sum_list_replicate mk_Pattern_def sqt sqr)
qed

text \<open>
  C1.  A series of fewer than 3 points gives no pattern.  A series of at least 3 points
  whose values are all equal does give a pattern, but not the one the specification
  names: the slope is \<open>0\<close> and the threshold (a tenth of the standard deviation) is \<open>0\<close>,
  so the strict test \<^verbatim>\<open>abs(slope) < threshold\<close> fails, \<^verbatim>\<open>slope > 0\<close> fails, and the
  trend is \<^verbatim>\<open>decreasing\<close>; the total sum of squares is \<open>0\<close>, so \<open>R\<^sup>2\<close> is taken as
  \<open>0\<close> and the confidence is the floor \<open>50\<close>.  The branch that assigns \<^verbatim>\<open>stable\<close> with
  confidence \<open>95\<close> tests the spread of the indices and is unreachable.
\<close>

theorem detect_pattern_short_and_constant:
  "(length ts < 3 \<longrightarrow> detect_pattern m ts tr = Inr None)
   \<and> (3 \<le> length ts \<and> (\<forall>p\<in>set ts. snd p = c) \<longrightarrow>
        detect_pattern m ts tr =
          Inr (Some \<lparr>pattern_metric = m, pattern_trend = DECREASING, pattern_confidence = 50,
                     pattern_description =
                       ''The '' @ m @ '' shows a decreasing trend over the analyzed period'',
                     pattern_time_range = tr\<rparr>))"
proof (intro conjI impI)
  assume "length ts < 3"
  then show "detect_pattern m ts tr = Inr None"
    by (simp add: detect_pattern_def)
next
  assume "3 \<le> length ts \<and> (\<forall>p\<in>set ts. snd p = c)"
  then show "detect_pattern m ts tr =
          Inr (Some \<lparr>pattern_metric = m, pattern_trend = DECREASING, pattern_confidence = 50,
                     pattern_description =
                       ''The '' @ m @ '' shows a decreasing trend over the analyzed period'',
                     pattern_time_range = tr\<rparr>)"
    using detect_pattern_constant [of ts c m tr] by blast
qed

theorem detect_pattern_short_and_constant_witness:
  "detect_pattern ''sleep'' [(0, 5), (1, 5)] \<lparr>range_start = 0, range_end = 2\<rparr> = Inr None
   \<and> detect_pattern ''sleep'' [(0, 5), (1, 5), (2, 5)] \<lparr>range_start = 0, range_end = 2\<rparr>
       = Inr (Some \<lparr>pattern_metric = ''sleep'', pattern_trend = DECREASING,
                    pattern_confidence = 50,
                    pattern_description =
                      ''The sleep shows a decreasing trend over the analyzed period'',
                    pattern_time_range = \<lparr>range_start = 0, range_end = 2\<rparr>\<rparr>)"
  using detect_pattern_short_and_constant
          [of "[(0, 5), (1, 5)]" "''sleep''" "\<lparr>range_start = 0, range_end = 2\<rparr>" 5]
        detect_pattern_short_and_constant
          [of "[(0, 5), (1, 5), (2, 5)]" "''sleep''" "\<lparr>range_start = 0, range_end = 2\<rparr>" 5]
  by simp

section \<open>The correlation coefficient\<close>

text \<open>The Cauchy-Schwarz inequality for sums over \<open>[0..<n]\<close>, by induction on \<open>n\<close>
  from its two-term instance.\<close>

lemma cs_two:
  fixes p q r s :: real
  assumes "0 \<le> p" "0 \<le> q" "0 \<le> r" "0 \<le> s"
  shows "p * q + r * s \<le> sqrt (p\<^sup>2 + r\<^sup>2) * sqrt (q\<^sup>2 + s\<^sup>2)"
proof -
  have "(p * q + r * s)\<^sup>2 + (p * s - r * q)\<^sup>2 = (p\<^sup>2 + r\<^sup>2) * (q\<^sup>2 + s\<^sup>2)"
    by (simp add: power2_eq_square algebra_simps)
  then have "(p * q + r * s)\<^sup>2 \<le> (p\<^sup>2 + r\<^sup>2) * (q\<^sup>2 + s\<^sup>2)"
    using zero_le_power2 [of "p * s - r * q"] by linarith
  then have "p * q + r * s \<le> sqrt ((p\<^sup>2 + r\<^sup>2) * (q\<^sup>2 + s\<^sup>2))"
    by (rule real_le_rsqrt)
  then show ?thesis by (simp add: real_sqrt_mult)
qed

lemma cauchy_schwarz_upt:
  fixes a b :: "nat \<Rightarrow> real"
  shows "\<bar>\<Sum>i\<leftarrow>[0..<n]. a i * b i\<bar>
           \<le> sqrt (\<Sum>i\<leftarrow>[0..<n]. (a i)\<^sup>2) * sqrt (\<Sum>i\<leftarrow>[0..<n]. (b i)\<^sup>2)"
proof (induction n)
  case 0
  show ?case by simp
next
  case (Suc n)
  define S where "S = (\<Sum>i\<leftarrow>[0..<n]. a i * b i)"
  define A where "A = (\<Sum>i\<leftarrow>[0..<n]. (a i)\<^sup>2)"
  define B where "B = (\<Sum>i\<leftarrow>[0..<n]. (b i)\<^sup>2)"
  have A0: "0 \<le> A" unfolding A_def by (rule sum_list_nonneg) auto
  have B0: "0 \<le> B" unfolding B_def by (rule sum_list_nonneg) auto
  have ih: "\<bar>S\<bar> \<le> sqrt A * sqrt B" using Suc.IH by (simp add: S_def A_def B_def)
  have "\<bar>S + a n * b n\<bar> \<le> \<bar>S\<bar> + \<bar>a n\<bar> * \<bar>b n\<bar>"
    by (metis abs_mult abs_triangle_ineq)
  also have "\<dots> \<le> sqrt A * sqrt B + \<bar>a n\<bar> * \<bar>b n\<bar>" using ih by simp
  also have "\<dots> \<le> sqrt ((sqrt A)\<^sup>2 + \<bar>a n\<bar>\<^sup>2) * sqrt ((sqrt B)\<^sup>2 + \<bar>b n\<bar>\<^sup>2)"
    by (rule cs_two) (simp_all add: A0 B0)
  also have "\<dots> = sqrt (A + (a n)\<^sup>2) * sqrt (B + (b n)\<^sup>2)"
    using A0 B0 by simp
  finally show ?case by (simp add: S_def A_def B_def)
qed

lemma sum_list_map_upt: "(\<Sum>x\<leftarrow>xs. f x) = (\<Sum>i\<leftarrow>[0..<length xs]. f (xs ! i))"
proof -
  have "(\<Sum>i\<leftarrow>[0..<length xs]. f (xs ! i)) = sum_list (map f (map ((!) xs) [0..<length xs]))"
    by (simp add: comp_def)
  also have "\<dots> = sum_list (map f xs)"
    by (simp only: map_nth)
  finally show ?thesis by simp
qed

text \<open>The value of \<^verbatim>\<open>_calculate_correlation\<close> on two lists of one length \<open>n \<ge> 2\<close>.\<close>

lemma calculate_correlation_eq:
  assumes "length xs = length ys" "2 \<le> length xs"
  shows "calculate_correlation xs ys =
     (let n = length xs;
          mean1 = sum_list xs / real n;
          mean2 = sum_list ys / real n;
          numerator = (\<Sum>i\<leftarrow>[0..<n]. (xs ! i - mean1) * (ys ! i - mean2));
          std1 = sqrt ((\<Sum>x\<leftarrow>xs. (x - mean1)\<^sup>2) / real (n - 1));
          std2 = sqrt ((\<Sum>y\<leftarrow>ys. (y - mean2)\<^sup>2) / real (n - 1))
      in if std1 * std2 * real n = 0 then Inr 0 else Inr (numerator / (std1 * std2 * real n)))"
proof -
  have ne: "xs \<noteq> []" "ys \<noteq> []" using assms by auto
  show ?thesis
    using assms ne
    by (simp add: calculate_correlation_def statistics_mean_def statistics_stdev_def Let_def)
qed

lemma calculate_correlation_degenerate:
  "length xs \<noteq> length ys \<or> length xs < 2 \<Longrightarrow> calculate_correlation xs ys = Inr 0"
  by (simp add: calculate_correlation_def)

lemma calculate_correlation_bound:
  assumes len: "length xs = length ys" "2 \<le> length xs"
  shows "\<exists>r. calculate_correlation xs ys = Inr r
           \<and> \<bar>r\<bar> * real (length xs) \<le> real (length xs) - 1"
proof -
  define n where "n = length xs"
  define mean1 where "mean1 = sum_list xs / real n"
  define mean2 where "mean2 = sum_list ys / real n"
  define num where "num = (\<Sum>i\<leftarrow>[0..<n]. (xs ! i - mean1) * (ys ! i - mean2))"
  define A where "A = (\<Sum>x\<leftarrow>xs. (x - mean1)\<^sup>2)"
  define B where "B = (\<Sum>y\<leftarrow>ys. (y - mean2)\<^sup>2)"
  define std1 where "std1 = sqrt (A / real (n - 1))"
  define std2 where "std2 = sqrt (B / real (n - 1))"
  have n2: "2 \<le> n" using len by (simp add: n_def)
  have A0: "0 \<le> A" unfolding A_def by (rule sum_list_nonneg) auto
  have B0: "0 \<le> B" unfolding B_def by (rule sum_list_nonneg) auto
  have Ai: "A = (\<Sum>i\<leftarrow>[0..<n]. (xs ! i - mean1)\<^sup>2)"
    unfolding A_def n_def by (rule sum_list_map_upt)
  have Bi: "B = (\<Sum>i\<leftarrow>[0..<n]. (ys ! i - mean2)\<^sup>2)"
    unfolding B_def n_def len(1) by (rule sum_list_map_upt)
  have cs: "\<bar>num\<bar> \<le> sqrt A * sqrt B"
    unfolding num_def Ai Bi by (rule cauchy_schwarz_upt)
  have prod: "std1 * std2 * real (n - 1) = sqrt A * sqrt B"
  proof -
    have "sqrt (real (n - 1)) * sqrt (real (n - 1)) = real (n - 1)" by simp
    then show ?thesis
      using n2 by (simp add: std1_def std2_def real_sqrt_divide field_simps)
  qed
  have eq: "calculate_correlation xs ys =
      (if std1 * std2 * real n = 0 then Inr 0 else Inr (num / (std1 * std2 * real n)))"
    unfolding calculate_correlation_eq [OF len] Let_def
      std1_def std2_def A_def B_def num_def mean1_def mean2_def n_def
    by (rule refl)
  show ?thesis
  proof (cases "std1 * std2 * real n = 0")
    case True
    then show ?thesis using eq n2 by (simp add: n_def [symmetric])
  next
    case False
    have s0: "0 \<le> std1" "0 \<le> std2" using A0 B0 by (simp_all add: std1_def std2_def)
    have nz: "std1 \<noteq> 0" "std2 \<noteq> 0" using False by simp_all
    have sp: "0 < std1" "0 < std2" using s0 nz by simp_all
    then have pos: "0 < std1 * std2" by simp
    have "\<bar>num / (std1 * std2 * real n)\<bar> * real n = \<bar>num\<bar> / (std1 * std2)"
      using pos n2 s0 by (simp add: abs_mult field_simps)
    also have "\<dots> \<le> (std1 * std2 * real (n - 1)) / (std1 * std2)"
    proof (rule divide_right_mono)
      show "\<bar>num\<bar> \<le> std1 * std2 * real (n - 1)" using cs by (simp only: prod)
      show "0 \<le> std1 * std2" using pos by simp
    qed
    also have "\<dots> = real n - 1"
    proof -
      have "std1 * std2 \<noteq> 0" using nz by simp
      then have "(std1 * std2 * real (n - 1)) / (std1 * std2) = real (n - 1)" by simp
      also have "\<dots> = real n - 1" using n2 by (simp add: of_nat_diff)
      finally show ?thesis .
    qed
    finally show ?thesis using eq False by (simp add: n_def [symmetric])
  qed
qed

lemma calculate_correlation_commute:
  "calculate_correlation xs ys = calculate_correlation ys xs"
proof (cases "length xs = length ys \<and> 2 \<le> length xs")
  case True
  then have a: "length xs = length ys" "2 \<le> length xs" "length ys = length xs" "2 \<le> length ys"
    by simp_all
  show ?thesis
    unfolding calculate_correlation_eq [OF a(1,2)] calculate_correlation_eq [OF a(3,4)]
    by (simp add: Let_def a(1) mult.commute)
next
  case False
  then show ?thesis
    by (auto simp: calculate_correlation_degenerate)
qed


section \<open>Correlation of two series\<close>

lemma calculate_correlation_total:
  "\<exists>r. calculate_correlation xs ys = Inr r \<and> \<bar>r\<bar> \<le> 1
        \<and> (0 < length xs \<longrightarrow> \<bar>r\<bar> * real (length xs) \<le> real (length xs) - 1)"
proof (cases "length xs = length ys \<and> 2 \<le> length xs")
  case True
  then obtain r where r: "calculate_correlation xs ys = Inr r"
    and b: "\<bar>r\<bar> * real (length xs) \<le> real (length xs) - 1"
    using calculate_correlation_bound [of xs ys] by blast
  have pos: "0 < real (length xs)" using True by auto
  have "\<bar>r\<bar> * real (length xs) \<le> 1 * real (length xs)" using b by simp
  then have "\<bar>r\<bar> \<le> 1" using pos by (simp only: mult_le_cancel_right_pos)
  then show ?thesis using r b by simp
next
  case False
  then have "calculate_correlation xs ys = Inr 0"
    by (intro calculate_correlation_degenerate) auto
  then show ?thesis by (auto simp: Suc_le_eq)
qed

lemma detect_correlations_unfold:
  assumes al: "align_time_series A B = Inr al"
    and r: "calculate_correlation (map (\<lambda>(t, v1, v2). v1) al) (map (\<lambda>(t, v1, v2). v2) al) = Inr r"
    and bound: "\<bar>r\<bar> \<le> 1"
  shows "detect_correlations u m1 m2 A B =
     (if length A < 3 \<or> length B < 3 \<or> length al < 3 \<or> \<bar>r\<bar> < 0.3 then Inr None
      else Inr (Some \<lparr>corr_metric1 = m1, corr_metric2 = m2, corr_strength = r,
             corr_description = ''A '' @ (if \<bar>r\<bar> > 0.7 then ''strong'' else ''moderate'')
               @ '' '' @ (if r > 0 then ''positive'' else ''negative'')
               @ '' correlation exists between '' @ m1 @ '' and '' @ m2,
             corr_causality = assess_causality m1 m2 r\<rparr>))"
  using bound
  by (simp add: detect_correlations_def al r mk_Correlation_def Let_def abs_le_iff)

lemma align_time_series_swap:
  assumes "align_time_series A B = Inr al"
  shows "align_time_series B A = Inr (map (\<lambda>(t, v1, v2). (t, v2, v1)) al)"
  using assms unfolding align_time_series_eq
  by (auto simp: Int_commute)

lemma map_of_causal_pairs_reverse:
  "map_of causal_pairs (a, b) = Some c \<Longrightarrow> map_of causal_pairs (b, a) = None"
  by (auto simp: causal_pairs_def split: if_splits)

lemma assess_causality_commute:
  "assess_causality m1 m2 r = assess_causality m2 m1 r"
proof -
  define a where "a = str_lower m1"
  define b where "b = str_lower m2"
  show ?thesis
  proof (cases "map_of causal_pairs (a, b)")
    case None
    then show ?thesis
      by (simp add: assess_causality_def a_def [symmetric] b_def [symmetric] split: option.splits)
  next
    case (Some c)
    then have "map_of causal_pairs (b, a) = None" by (rule map_of_causal_pairs_reverse)
    then show ?thesis using Some
      by (simp add: assess_causality_def a_def [symmetric] b_def [symmetric])
  qed
qed

lemma sqrt_16: "sqrt 16 = 4"
  by (rule real_sqrt_unique) simp_all

text \<open>Two series on the timestamps \<open>0, \<dots>, 9\<close>, the second exactly twice the first.\<close>

lemma correlation_example_eval:
  "detect_correlations ''u'' ''a'' ''b''
     [(0, 6), (1, 0), (2, 6), (3, 0), (4, 3), (5, 3), (6, 3), (7, 3), (8, 3), (9, 3)]
     [(0, 12), (1, 0), (2, 12), (3, 0), (4, 6), (5, 6), (6, 6), (7, 6), (8, 6), (9, 6)]
   = Inr (Some \<lparr>corr_metric1 = ''a'', corr_metric2 = ''b'', corr_strength = 9 / 10,
         corr_description = ''A strong positive correlation exists between a and b'',
         corr_causality = POSSIBLE\<rparr>)"
  unfolding detect_correlations_def align_time_series_eq common_timestamps_code
  by (simp add: calculate_correlation_def statistics_mean_def statistics_stdev_def
      mk_Correlation_def assess_causality_def causal_pairs_def str_lower_def lower_char_def
      sqrt_16 Let_def)


lemma correlation_example_eval_swapped:
  "detect_correlations ''u'' ''b'' ''a''
     [(0, 12), (1, 0), (2, 12), (3, 0), (4, 6), (5, 6), (6, 6), (7, 6), (8, 6), (9, 6)]
     [(0, 6), (1, 0), (2, 6), (3, 0), (4, 3), (5, 3), (6, 3), (7, 3), (8, 3), (9, 3)]
   = Inr (Some \<lparr>corr_metric1 = ''b'', corr_metric2 = ''a'', corr_strength = 9 / 10,
         corr_description = ''A strong positive correlation exists between b and a'',
         corr_causality = POSSIBLE\<rparr>)"
  unfolding detect_correlations_def align_time_series_eq common_timestamps_code
  by (simp add: calculate_correlation_def statistics_mean_def statistics_stdev_def
      mk_Correlation_def assess_causality_def causal_pairs_def str_lower_def lower_char_def
      sqrt_16 Let_def)

text \<open>
  C8.  Correlation detection is symmetric in its two series: with the metric names and
  the series exchanged, either both calls return a correlation, of equal strength and
  equal causality label, or both return none.  Neither call raises.
\<close>

theorem detect_correlations_symmetric:
  "(\<exists>c c'. detect_correlations u m1 m2 A B = Inr (Some c)
       \<and> detect_correlations u' m2 m1 B A = Inr (Some c')
       \<and> corr_strength c = corr_strength c' \<and> corr_causality c = corr_causality c')
   \<or> (detect_correlations u m1 m2 A B = Inr None
       \<and> detect_correlations u' m2 m1 B A = Inr None)"
proof -
  obtain al where al: "align_time_series A B = Inr al"
    by (simp add: align_time_series_eq)
  define al' where "al' = map (\<lambda>(t, v1, v2). (t, v2, v1)) al"
  have al': "align_time_series B A = Inr al'"
    unfolding al'_def using al by (rule align_time_series_swap)
  define xs where "xs = map (\<lambda>(t, v1, v2). v1) al"
  define ys where "ys = map (\<lambda>(t, v1, v2). v2) al"
  have sw: "map (\<lambda>(t, v1, v2). v1) al' = ys" "map (\<lambda>(t, v1, v2). v2) al' = xs"
    by (simp_all add: al'_def xs_def ys_def comp_def case_prod_unfold)
  obtain r where r: "calculate_correlation xs ys = Inr r" and b: "\<bar>r\<bar> \<le> 1"
    using calculate_correlation_total [of xs ys] by blast
  have r': "calculate_correlation ys xs = Inr r"
    using r by (simp add: calculate_correlation_commute)
  have len: "length al' = length al" by (simp add: al'_def)
  note d1 = detect_correlations_unfold [OF al r [unfolded xs_def ys_def] b, of u m1 m2]
  note d2 = detect_correlations_unfold [OF al' r' [folded sw] b, of u' m2 m1]
  show ?thesis
    unfolding d1 d2 len
    by (simp add: assess_causality_commute [of m1 m2 r] disj_commute)
qed


theorem detect_correlations_symmetric_witness:
  "detect_correlations ''u'' ''a'' ''b''
     [(0, 6), (1, 0), (2, 6), (3, 0), (4, 3), (5, 3), (6, 3), (7, 3), (8, 3), (9, 3)]
     [(0, 12), (1, 0), (2, 12), (3, 0), (4, 6), (5, 6), (6, 6), (7, 6), (8, 6), (9, 6)]
   = Inr (Some \<lparr>corr_metric1 = ''a'', corr_metric2 = ''b'', corr_strength = 9 / 10,
         corr_description = ''A strong positive correlation exists between a and b'',
         corr_causality = POSSIBLE\<rparr>)
   \<and> detect_correlations ''u'' ''b'' ''a''
     [(0, 12), (1, 0), (2, 12), (3, 0), (4, 6), (5, 6), (6, 6), (7, 6), (8, 6), (9, 6)]
     [(0, 6), (1, 0), (2, 6), (3, 0), (4, 3), (5, 3), (6, 3), (7, 3), (8, 3), (9, 3)]
   = Inr (Some \<lparr>corr_metric1 = ''b'', corr_metric2 = ''a'', corr_strength = 9 / 10,
         corr_description = ''A strong positive correlation exists between b and a'',
         corr_causality = POSSIBLE\<rparr>)"
  using detect_correlations_symmetric [of "''u''" "''a''" "''b''"
      "[(0, 6), (1, 0), (2, 6), (3, 0), (4, 3), (5, 3), (6, 3), (7, 3), (8, 3), (9, 3)]"
      "[(0, 12), (1, 0), (2, 12), (3, 0), (4, 6), (5, 6), (6, 6), (7, 6), (8, 6), (9, 6)]"
      "''u''"]
  by (simp add: correlation_example_eval correlation_example_eval_swapped)

text \<open>
  C2.  For two 10-point series on the same ten distinct timestamps, whatever their
  values, a returned correlation has strength at most \<open>0.9\<close> in absolute value: the code
  divides the sum of products by \<open>n\<close> times the two \<^emph>\<open>sample\<close> standard deviations,
  which is \<open>(n - 1) / n\<close> times Pearson's coefficient.  In particular the strength never
  exceeds \<open>0.9\<close> on the scenario \<open>B[i] = 2 A[i] + noise\<close>; with zero noise it is exactly
  \<open>0.9\<close>, as the witness computes.
\<close>

theorem detect_correlations_ten_points:
  assumes "length A = 10" "length B = 10" "distinct (map fst A)" "fst ` set B = fst ` set A"
  shows "detect_correlations u m1 m2 A B = Inr None
    \<or> (\<exists>c. detect_correlations u m1 m2 A B = Inr (Some c) \<and> \<bar>corr_strength c\<bar> \<le> 9 / 10)"
proof -
  define ks where "ks = sorted_list_of_set (fst ` set A \<inter> fst ` set B)"
  define al where "al = map (\<lambda>t. (t, the (map_of (rev A) t), the (map_of (rev B) t))) ks"
  have al: "align_time_series A B = Inr al"
    by (simp add: align_time_series_eq al_def ks_def)
  have "card (fst ` set A) = 10"
    using assms(1,3) distinct_card [of "map fst A"] by simp
  then have len: "length al = 10"
    by (simp add: al_def ks_def assms(4))
  define xs where "xs = map (\<lambda>(t, v1, v2). v1) al"
  define ys where "ys = map (\<lambda>(t, v1, v2). v2) al"
  have lx: "length xs = 10" by (simp add: xs_def len)
  obtain r where r: "calculate_correlation xs ys = Inr r" and b1: "\<bar>r\<bar> \<le> 1"
    and b: "0 < length xs \<longrightarrow> \<bar>r\<bar> * real (length xs) \<le> real (length xs) - 1"
    using calculate_correlation_total [of xs ys] by blast
  have r9: "\<bar>r\<bar> \<le> 9 / 10" using b lx by simp
  show ?thesis
    unfolding detect_correlations_unfold [OF al r [unfolded xs_def ys_def] b1]
    using r9 by simp
qed

theorem detect_correlations_ten_points_witness:
  "length [(0::int, 6::real), (1, 0), (2, 6), (3, 0), (4, 3), (5, 3), (6, 3), (7, 3), (8, 3), (9, 3)] = 10
   \<and> distinct (map fst [(0::int, 6::real), (1, 0), (2, 6), (3, 0), (4, 3), (5, 3), (6, 3), (7, 3), (8, 3), (9, 3)])
   \<and> fst ` set [(0::int, 12::real), (1, 0), (2, 12), (3, 0), (4, 6), (5, 6), (6, 6), (7, 6), (8, 6), (9, 6)]
       = fst ` set [(0::int, 6::real), (1, 0), (2, 6), (3, 0), (4, 3), (5, 3), (6, 3), (7, 3), (8, 3), (9, 3)]
   \<and> (\<exists>c. detect_correlations ''u'' ''a'' ''b''
         [(0, 6), (1, 0), (2, 6), (3, 0), (4, 3), (5, 3), (6, 3), (7, 3), (8, 3), (9, 3)]
         [(0, 12), (1, 0), (2, 12), (3, 0), (4, 6), (5, 6), (6, 6), (7, 6), (8, 6), (9, 6)]
           = Inr (Some c)
         \<and> corr_strength c = 9 / 10 \<and> \<bar>corr_strength c\<bar> \<le> 9 / 10)"
proof -
  have h1: "length [(0::int, 6::real), (1, 0), (2, 6), (3, 0), (4, 3), (5, 3), (6, 3), (7, 3), (8, 3), (9, 3)] = 10"
    by simp
  have h2: "length [(0::int, 12::real), (1, 0), (2, 12), (3, 0), (4, 6), (5, 6), (6, 6), (7, 6), (8, 6), (9, 6)] = 10"
    by simp
  have h3: "distinct (map fst [(0::int, 6::real), (1, 0), (2, 6), (3, 0), (4, 3), (5, 3), (6, 3), (7, 3), (8, 3), (9, 3)])"
    by simp
  have h4: "fst ` set [(0::int, 12::real), (1, 0), (2, 12), (3, 0), (4, 6), (5, 6), (6, 6), (7, 6), (8, 6), (9, 6)]
       = fst ` set [(0::int, 6::real), (1, 0), (2, 6), (3, 0), (4, 3), (5, 3), (6, 3), (7, 3), (8, 3), (9, 3)]"
    by simp
  show ?thesis
    using detect_correlations_ten_points [OF h1 h2 h3 h4, of "''u''" "''a''" "''b''"] h1 h3 h4
    by (simp add: correlation_example_eval)
qed


section \<open>Significant change\<close>
















section \<open>Absent results and errors\<close>






















section \<open>Food classification\<close>

lemma scores_keys:
  "\<exists>h j p. calculate_category_scores f q = [(HEALTHY, h), (JUNK, j), (PRESERVATIVE_HEAVY, p)]"
  by (simp add: calculate_category_scores_def Let_def)

lemma calculate_confidence_three:
  "\<exists>w. dict_get [(HEALTHY, h), (JUNK, j), (PRESERVATIVE_HEAVY, p)] c = Inr w
     \<and> calculate_confidence [(HEALTHY, h), (JUNK, j), (PRESERVATIVE_HEAVY, p)] c
         = Inr (min 95 (max 60 (60 + 70 *
             (w - Max (snd ` {e \<in> set [(HEALTHY, h), (JUNK, j), (PRESERVATIVE_HEAVY, p)]. fst e \<noteq> c})))))"
proof (cases c)
  case HEALTHY
  have "{e \<in> set [(HEALTHY, h), (JUNK, j), (PRESERVATIVE_HEAVY, p)]. fst e \<noteq> HEALTHY}
        = {(JUNK, j), (PRESERVATIVE_HEAVY, p)}" by auto
  then show ?thesis using HEALTHY
    by (simp add: calculate_confidence_def dict_get_def Let_def mult.commute)
next
  case JUNK
  have "{e \<in> set [(HEALTHY, h), (JUNK, j), (PRESERVATIVE_HEAVY, p)]. fst e \<noteq> JUNK}
        = {(HEALTHY, h), (PRESERVATIVE_HEAVY, p)}" by auto
  then show ?thesis using JUNK
    by (simp add: calculate_confidence_def dict_get_def Let_def mult.commute)
next
  case PRESERVATIVE_HEAVY
  have "{e \<in> set [(HEALTHY, h), (JUNK, j), (PRESERVATIVE_HEAVY, p)]. fst e \<noteq> PRESERVATIVE_HEAVY}
        = {(HEALTHY, h), (JUNK, j)}" by auto
  then show ?thesis using PRESERVATIVE_HEAVY
    by (simp add: calculate_confidence_def dict_get_def Let_def mult.commute)
qed

lemma max_key_three:
  "\<exists>c. max_key [(HEALTHY, h), (JUNK, j), (PRESERVATIVE_HEAVY, p)] = Inr c"
  by (simp add: max_key_def)

lemma select_dominant_category_three:
  "\<exists>c. select_dominant_category [(HEALTHY, h), (JUNK, j), (PRESERVATIVE_HEAVY, p)] f = Inr c"
proof -
  obtain c where c: "max_key [(HEALTHY, h), (JUNK, j), (PRESERVATIVE_HEAVY, p)] = Inr c"
    using max_key_three by blast
  show ?thesis
    by (cases c) (simp_all add: select_dominant_category_def c dict_get_def Let_def)
qed

lemma classify_food_result:
  "\<exists>r w. classify_food f = Inr r
     \<and> select_dominant_category (calculate_category_scores f (get_fsi_parameters f)) f
         = Inr (fc_category r)
     \<and> dict_get (calculate_category_scores f (get_fsi_parameters f)) (fc_category r) = Inr w
     \<and> fc_confidence r = min 95 (max 60 (60 + 70 *
          (w - Max (snd ` {e \<in> set (calculate_category_scores f (get_fsi_parameters f)).
                            fst e \<noteq> fc_category r}))))
     \<and> 60 \<le> fc_confidence r \<and> fc_confidence r \<le> 95"
proof -
  obtain h j p where sc: "calculate_category_scores f (get_fsi_parameters f)
      = [(HEALTHY, h), (JUNK, j), (PRESERVATIVE_HEAVY, p)]"
    using scores_keys by blast
  obtain c where c: "select_dominant_category [(HEALTHY, h), (JUNK, j), (PRESERVATIVE_HEAVY, p)] f = Inr c"
    using select_dominant_category_three by blast
  obtain w where w: "dict_get [(HEALTHY, h), (JUNK, j), (PRESERVATIVE_HEAVY, p)] c = Inr w"
    and cc: "calculate_confidence [(HEALTHY, h), (JUNK, j), (PRESERVATIVE_HEAVY, p)] c
         = Inr (min 95 (max 60 (60 + 70 *
             (w - Max (snd ` {e \<in> set [(HEALTHY, h), (JUNK, j), (PRESERVATIVE_HEAVY, p)]. fst e \<noteq> c})))))"
    using calculate_confidence_three [of h j p c] by blast
  define conf where "conf = min 95 (max 60 (60 + 70 *
             (w - Max (snd ` {e \<in> set [(HEALTHY, h), (JUNK, j), (PRESERVATIVE_HEAVY, p)]. fst e \<noteq> c}))))"
  have rng: "60 \<le> conf" "conf \<le> 95" by (simp_all add: conf_def)
  define R where "R = \<lparr>fc_category = c, fc_confidence = conf,
      fc_dominant_factors = generate_rationale c f (get_fsi_parameters f)
         [(HEALTHY, h), (JUNK, j), (PRESERVATIVE_HEAVY, p)]\<rparr>"
  have mk: "mk_FoodClassification c conf fs
      = Inr \<lparr>fc_category = c, fc_confidence = conf, fc_dominant_factors = fs\<rparr>" for fs
    using rng by (simp add: mk_FoodClassification_def)
  have cf: "classify_food f = Inr R"
    unfolding classify_food_def Let_def sc R_def
    by (simp only: c cc bind_res_Inr conf_def [symmetric] mk)
  show ?thesis
  proof (intro exI conjI)
    show "classify_food f = Inr R" by (rule cf)
    show "select_dominant_category (calculate_category_scores f (get_fsi_parameters f)) f
         = Inr (fc_category R)"
      by (simp add: sc c R_def)
    show "dict_get (calculate_category_scores f (get_fsi_parameters f)) (fc_category R) = Inr w"
      by (simp add: sc w R_def)
    show "fc_confidence R = min 95 (max 60 (60 + 70 *
          (w - Max (snd ` {e \<in> set (calculate_category_scores f (get_fsi_parameters f)).
                            fst e \<noteq> fc_category R}))))"
      by (simp add: sc conf_def R_def)
    show "60 \<le> fc_confidence R" using rng by (simp add: R_def)
    show "fc_confidence R \<le> 95" using rng by (simp add: R_def)
  qed
qed

lemma bread_eval:
  "classify_food \<lparr>food_name = ''Whole wheat bread'', serving_size = 2, food_unit = ''slices'',
      nutritional_info = \<lparr>calories = 160, protein = 8, carbohydrates = 28, fat = 2,
        sodium = 300, sugar = 4, fiber = 4, preservatives = [], processing_level = 2\<rparr>\<rparr>
   = Inr \<lparr>fc_category = HEALTHY, fc_confidence = 95,
          fc_dominant_factors = [''nutrient_density'', ''low_processing'', ''no_preservatives'', ''fiber'']\<rparr>"
  by (simp add: classify_food_def get_fsi_parameters_def calculate_category_scores_def
      select_dominant_category_def max_key_def dict_get_def calculate_confidence_def
      generate_rationale_def mk_FoodClassification_def Let_def
      PRESERVATIVE_COUNT_THRESHOLD_def PROCESSING_JUNK_MIN_def SUGAR_JUNK_THRESHOLD_def
      SODIUM_JUNK_THRESHOLD_def NUTRIENT_DENSITY_HEALTHY_THRESHOLD_def
      PROCESSING_HEALTHY_MAX_def)

lemma snack_eval:
  "classify_food \<lparr>food_name = ''Granola bar'', serving_size = 1, food_unit = ''bar'',
      nutritional_info = \<lparr>calories = 100, protein = 0.25, carbohydrates = 20, fat = 2,
        sodium = 500, sugar = 15, fiber = 0.25, preservatives = [], processing_level = 3\<rparr>\<rparr>
   = Inr \<lparr>fc_category = JUNK, fc_confidence = 60,
          fc_dominant_factors = [''overall_composition'']\<rparr>"
  by (simp add: classify_food_def get_fsi_parameters_def calculate_category_scores_def
      select_dominant_category_def max_key_def dict_get_def calculate_confidence_def
      generate_rationale_def mk_FoodClassification_def Let_def
      PRESERVATIVE_COUNT_THRESHOLD_def PROCESSING_JUNK_MIN_def SUGAR_JUNK_THRESHOLD_def
      SODIUM_JUNK_THRESHOLD_def NUTRIENT_DENSITY_JUNK_THRESHOLD_def)

lemma snack_scores:
  "calculate_category_scores \<lparr>food_name = ''Granola bar'', serving_size = 1, food_unit = ''bar'',
      nutritional_info = \<lparr>calories = 100, protein = 0.25, carbohydrates = 20, fat = 2,
        sodium = 500, sugar = 15, fiber = 0.25, preservatives = [], processing_level = 3\<rparr>\<rparr>
     (get_fsi_parameters \<lparr>food_name = ''Granola bar'', serving_size = 1, food_unit = ''bar'',
      nutritional_info = \<lparr>calories = 100, protein = 0.25, carbohydrates = 20, fat = 2,
        sodium = 500, sugar = 15, fiber = 0.25, preservatives = [], processing_level = 3\<rparr>\<rparr>)
   = [(HEALTHY, 0.575), (JUNK, 0.5), (PRESERVATIVE_HEAVY, 0)]"
  by (simp add: get_fsi_parameters_def calculate_category_scores_def Let_def
      PRESERVATIVE_COUNT_THRESHOLD_def PROCESSING_JUNK_MIN_def SUGAR_JUNK_THRESHOLD_def
      SODIUM_JUNK_THRESHOLD_def)


lemma cured_eval:
  "classify_food \<lparr>food_name = ''Cured sausage'', serving_size = 50, food_unit = ''g'',
      nutritional_info = \<lparr>calories = 200, protein = 20, carbohydrates = 1, fat = 12,
        sodium = 100, sugar = 0, fiber = 0,
        preservatives = [''sodium nitrite'', ''BHA'', ''BHT''], processing_level = 1\<rparr>\<rparr>
   = Inr \<lparr>fc_category = PRESERVATIVE_HEAVY, fc_confidence = 60,
          fc_dominant_factors = [''preservatives'']\<rparr>"
  by (simp add: classify_food_def get_fsi_parameters_def calculate_category_scores_def
      select_dominant_category_def max_key_def dict_get_def calculate_confidence_def
      generate_rationale_def mk_FoodClassification_def Let_def
      PRESERVATIVE_COUNT_THRESHOLD_def PROCESSING_JUNK_MIN_def SUGAR_JUNK_THRESHOLD_def
      SODIUM_JUNK_THRESHOLD_def)

text \<open>
  C4.  \<^verbatim>\<open>classify_food\<close> never raises, and the confidence of its result is
  \<open>clamp (60 + 70 * (w - s)) 60 95\<close>, where \<open>w\<close> is the score of the returned category
  and \<open>s\<close> the greatest score among the other categories; so it lies between 60 and 95.
  On a score dict with a single category the confidence is 95.
\<close>

theorem classify_confidence:
  "(\<exists>r w. classify_food f = Inr r
     \<and> dict_get (calculate_category_scores f (get_fsi_parameters f)) (fc_category r) = Inr w
     \<and> fc_confidence r = min 95 (max 60 (60 + 70 *
          (w - Max (snd ` {e \<in> set (calculate_category_scores f (get_fsi_parameters f)).
                            fst e \<noteq> fc_category r}))))
     \<and> 60 \<le> fc_confidence r \<and> fc_confidence r \<le> 95)
   \<and> calculate_confidence [(c, s)] c = Inr 95"
proof
  show "\<exists>r w. classify_food f = Inr r
     \<and> dict_get (calculate_category_scores f (get_fsi_parameters f)) (fc_category r) = Inr w
     \<and> fc_confidence r = min 95 (max 60 (60 + 70 *
          (w - Max (snd ` {e \<in> set (calculate_category_scores f (get_fsi_parameters f)).
                            fst e \<noteq> fc_category r}))))
     \<and> 60 \<le> fc_confidence r \<and> fc_confidence r \<le> 95"
    using classify_food_result [of f] by blast
  show "calculate_confidence [(c, s)] c = Inr 95"
    by (simp add: calculate_confidence_def dict_get_def)
qed

theorem classify_confidence_witness:
  "classify_food \<lparr>food_name = ''Whole wheat bread'', serving_size = 2, food_unit = ''slices'',
      nutritional_info = \<lparr>calories = 160, protein = 8, carbohydrates = 28, fat = 2,
        sodium = 300, sugar = 4, fiber = 4, preservatives = [], processing_level = 2\<rparr>\<rparr>
   = Inr \<lparr>fc_category = HEALTHY, fc_confidence = 95,
          fc_dominant_factors = [''nutrient_density'', ''low_processing'', ''no_preservatives'', ''fiber'']\<rparr>
   \<and> (60::real) \<le> 95 \<and> calculate_confidence [(JUNK, 1 / 2)] JUNK = Inr 95"
  using classify_confidence [of "\<lparr>food_name = ''Whole wheat bread'', serving_size = 2, food_unit = ''slices'',
      nutritional_info = \<lparr>calories = 160, protein = 8, carbohydrates = 28, fat = 2,
        sodium = 300, sugar = 4, fiber = 4, preservatives = [], processing_level = 2\<rparr>\<rparr>" JUNK "1 / 2"]
  by (simp add: bread_eval)

text \<open>
  C5.  A food item that lists at least 3 preservatives is classified
  \<^verbatim>\<open>PRESERVATIVE_HEAVY\<close>: the selection returns that category for any score dict at
  all, before the highest score is even looked at, and the preservative score computed
  for the item is at least \<open>0.8\<close>.
\<close>

theorem preservative_override:
  assumes "3 \<le> length (preservatives (nutritional_info f))"
  shows "(\<exists>r. classify_food f = Inr r \<and> fc_category r = PRESERVATIVE_HEAVY)
     \<and> select_dominant_category scores f = Inr PRESERVATIVE_HEAVY
     \<and> (\<exists>p. dict_get (calculate_category_scores f (get_fsi_parameters f)) PRESERVATIVE_HEAVY = Inr p
           \<and> 0.8 \<le> p)"
proof (intro conjI)
  have sel: "select_dominant_category sc f = Inr PRESERVATIVE_HEAVY" for sc
    using assms by (simp add: select_dominant_category_def PRESERVATIVE_COUNT_THRESHOLD_def)
  show "select_dominant_category scores f = Inr PRESERVATIVE_HEAVY" by (rule sel)
  obtain r where r: "classify_food f = Inr r"
    and c: "select_dominant_category (calculate_category_scores f (get_fsi_parameters f)) f
         = Inr (fc_category r)"
    using classify_food_result [of f] by blast
  have "fc_category r = PRESERVATIVE_HEAVY" using c by (simp add: sel)
  then show "\<exists>r. classify_food f = Inr r \<and> fc_category r = PRESERVATIVE_HEAVY"
    using r by blast
  show "\<exists>p. dict_get (calculate_category_scores f (get_fsi_parameters f)) PRESERVATIVE_HEAVY = Inr p
           \<and> 0.8 \<le> p"
    using assms
    by (simp add: calculate_category_scores_def dict_get_def Let_def
        PRESERVATIVE_COUNT_THRESHOLD_def)
qed

theorem preservative_override_witness:
  "3 \<le> length (preservatives (nutritional_info \<lparr>food_name = ''Cured sausage'', serving_size = 50, food_unit = ''g'',
      nutritional_info = \<lparr>calories = 200, protein = 20, carbohydrates = 1, fat = 12,
        sodium = 100, sugar = 0, fiber = 0,
        preservatives = [''sodium nitrite'', ''BHA'', ''BHT''], processing_level = 1\<rparr>\<rparr>))
   \<and> classify_food \<lparr>food_name = ''Cured sausage'', serving_size = 50, food_unit = ''g'',
      nutritional_info = \<lparr>calories = 200, protein = 20, carbohydrates = 1, fat = 12,
        sodium = 100, sugar = 0, fiber = 0,
        preservatives = [''sodium nitrite'', ''BHA'', ''BHT''], processing_level = 1\<rparr>\<rparr>
   = Inr \<lparr>fc_category = PRESERVATIVE_HEAVY, fc_confidence = 60,
          fc_dominant_factors = [''preservatives'']\<rparr>
   \<and> select_dominant_category [(HEALTHY, 1), (JUNK, 0), (PRESERVATIVE_HEAVY, 0)]
        \<lparr>food_name = ''Cured sausage'', serving_size = 50, food_unit = ''g'',
      nutritional_info = \<lparr>calories = 200, protein = 20, carbohydrates = 1, fat = 12,
        sodium = 100, sugar = 0, fiber = 0,
        preservatives = [''sodium nitrite'', ''BHA'', ''BHT''], processing_level = 1\<rparr>\<rparr> = Inr PRESERVATIVE_HEAVY"
proof -
  have h: "3 \<le> length (preservatives (nutritional_info \<lparr>food_name = ''Cured sausage'', serving_size = 50, food_unit = ''g'',
      nutritional_info = \<lparr>calories = 200, protein = 20, carbohydrates = 1, fat = 12,
        sodium = 100, sugar = 0, fiber = 0,
        preservatives = [''sodium nitrite'', ''BHA'', ''BHT''], processing_level = 1\<rparr>\<rparr>))"
    by simp
  show ?thesis
    using preservative_override [OF h, of "[(HEALTHY, 1), (JUNK, 0), (PRESERVATIVE_HEAVY, 0)]"] h
    by (simp add: cured_eval)
qed

text \<open>
  C6.  A food item with fewer than 3 preservatives whose \<^verbatim>\<open>HEALTHY\<close> score is at least
  as high as the two others, and whose \<^verbatim>\<open>JUNK\<close> score differs from it by less than
  \<open>0.15\<close> (the strict test of the code, \<^verbatim>\<open>abs(...) < score_threshold\<close>), is classified
  \<^verbatim>\<open>JUNK\<close>.  The tie-break looks at nothing but a \<^verbatim>\<open>HEALTHY\<close> winner: when the
  highest score belongs to \<^verbatim>\<open>JUNK\<close> or \<^verbatim>\<open>PRESERVATIVE_HEAVY\<close>, the selection
  returns that winner or, by the preservative override, \<^verbatim>\<open>PRESERVATIVE_HEAVY\<close>; it
  never returns \<^verbatim>\<open>HEALTHY\<close>.
\<close>

theorem caution_tie_break:
  "(length (preservatives (nutritional_info f)) < 3
      \<and> calculate_category_scores f (get_fsi_parameters f)
          = [(HEALTHY, h), (JUNK, j), (PRESERVATIVE_HEAVY, p)]
      \<and> j \<le> h \<and> p \<le> h \<and> \<bar>j - h\<bar> < 0.15
    \<longrightarrow> (\<exists>r. classify_food f = Inr r \<and> fc_category r = JUNK))
   \<and> (max_key [(HEALTHY, h'), (JUNK, j'), (PRESERVATIVE_HEAVY, p')] = Inr c \<and> c \<noteq> HEALTHY
    \<longrightarrow> (select_dominant_category [(HEALTHY, h'), (JUNK, j'), (PRESERVATIVE_HEAVY, p')] g = Inr c
          \<or> select_dominant_category [(HEALTHY, h'), (JUNK, j'), (PRESERVATIVE_HEAVY, p')] g
               = Inr PRESERVATIVE_HEAVY))"
proof (intro conjI impI)
  assume a: "length (preservatives (nutritional_info f)) < 3
      \<and> calculate_category_scores f (get_fsi_parameters f)
          = [(HEALTHY, h), (JUNK, j), (PRESERVATIVE_HEAVY, p)]
      \<and> j \<le> h \<and> p \<le> h \<and> \<bar>j - h\<bar> < 0.15"
  then have sc: "calculate_category_scores f (get_fsi_parameters f)
          = [(HEALTHY, h), (JUNK, j), (PRESERVATIVE_HEAVY, p)]" by blast
  have lt: "length (preservatives (nutritional_info f)) < 3" using a by blast
  have ab: "\<bar>j - h\<bar> < 0.15" using a by blast
  have "dict_get (calculate_category_scores f (get_fsi_parameters f)) PRESERVATIVE_HEAVY
      = Inr (min 1 (real (length (preservatives (nutritional_info f))) / 5))"
    using lt by (simp add: calculate_category_scores_def get_fsi_parameters_def Let_def
        dict_get_def PRESERVATIVE_COUNT_THRESHOLD_def)
  moreover have "dict_get (calculate_category_scores f (get_fsi_parameters f)) PRESERVATIVE_HEAVY
      = Inr p"
    by (simp add: sc dict_get_def)
  ultimately have "p = min 1 (real (length (preservatives (nutritional_info f))) / 5)"
    by simp
  moreover have "real (length (preservatives (nutritional_info f))) \<le> 2" using lt by simp
  ultimately have p: "p < 0.6" by simp
  have le: "j \<le> h" "p \<le> h" using a by blast+
  have mk: "max_key [(HEALTHY, h), (JUNK, j), (PRESERVATIVE_HEAVY, p)] = Inr HEALTHY"
    using le by (simp add: max_key_def)
  have sel: "select_dominant_category [(HEALTHY, h), (JUNK, j), (PRESERVATIVE_HEAVY, p)] f = Inr JUNK"
    using lt p ab
    by (simp add: select_dominant_category_def PRESERVATIVE_COUNT_THRESHOLD_def mk dict_get_def)
  obtain r where r: "classify_food f = Inr r"
    and c: "select_dominant_category (calculate_category_scores f (get_fsi_parameters f)) f
         = Inr (fc_category r)"
    using classify_food_result [of f] by blast
  have "fc_category r = JUNK" using c by (simp add: sc sel)
  then show "\<exists>r. classify_food f = Inr r \<and> fc_category r = JUNK" using r by blast
next
  assume a: "max_key [(HEALTHY, h'), (JUNK, j'), (PRESERVATIVE_HEAVY, p')] = Inr c \<and> c \<noteq> HEALTHY"
  then show "select_dominant_category [(HEALTHY, h'), (JUNK, j'), (PRESERVATIVE_HEAVY, p')] g = Inr c
          \<or> select_dominant_category [(HEALTHY, h'), (JUNK, j'), (PRESERVATIVE_HEAVY, p')] g
               = Inr PRESERVATIVE_HEAVY"
    by (cases c) (simp_all add: select_dominant_category_def dict_get_def Let_def)
qed

theorem caution_tie_break_witness:
  "classify_food \<lparr>food_name = ''Granola bar'', serving_size = 1, food_unit = ''bar'',
      nutritional_info = \<lparr>calories = 100, protein = 0.25, carbohydrates = 20, fat = 2,
        sodium = 500, sugar = 15, fiber = 0.25, preservatives = [], processing_level = 3\<rparr>\<rparr>
   = Inr \<lparr>fc_category = JUNK, fc_confidence = 60,
          fc_dominant_factors = [''overall_composition'']\<rparr>
   \<and> max_key [(HEALTHY, 0.2), (JUNK, 0.5), (PRESERVATIVE_HEAVY, 0.4)] = Inr JUNK
   \<and> select_dominant_category [(HEALTHY, 0.2), (JUNK, 0.5), (PRESERVATIVE_HEAVY, 0.4)]
        \<lparr>food_name = ''Granola bar'', serving_size = 1, food_unit = ''bar'',
      nutritional_info = \<lparr>calories = 100, protein = 0.25, carbohydrates = 20, fat = 2,
        sodium = 500, sugar = 15, fiber = 0.25, preservatives = [], processing_level = 3\<rparr>\<rparr> = Inr JUNK"
  using caution_tie_break [of "\<lparr>food_name = ''Granola bar'', serving_size = 1, food_unit = ''bar'',
      nutritional_info = \<lparr>calories = 100, protein = 0.25, carbohydrates = 20, fat = 2,
        sodium = 500, sugar = 15, fiber = 0.25, preservatives = [], processing_level = 3\<rparr>\<rparr>"
      "0.575" "0.5" 0 "0.2" "0.5" "0.4" JUNK
      "\<lparr>food_name = ''Granola bar'', serving_size = 1, food_unit = ''bar'',
      nutritional_info = \<lparr>calories = 100, protein = 0.25, carbohydrates = 20, fat = 2,
        sodium = 500, sugar = 15, fiber = 0.25, preservatives = [], processing_level = 3\<rparr>\<rparr>"]
  unfolding snack_eval snack_scores
  by (simp add: max_key_def select_dominant_category_def dict_get_def
      PRESERVATIVE_COUNT_THRESHOLD_def)


section \<open>Water retention\<close>

text \<open>Sorting the factors does not change the sum of their impacts.\<close>

lemma sum_insort_key:
  "(\<Sum>y\<leftarrow>insort_key k x xs. (f y :: int)) = f x + (\<Sum>y\<leftarrow>xs. f y)"
  by (induction xs) simp_all

lemma sum_sort_key:
  "(\<Sum>y\<leftarrow>sort_key k xs. (f y :: int)) = (\<Sum>y\<leftarrow>xs. f y)"
  by (induction xs) (simp_all add: sum_insort_key)

lemma sum_append_if:
  "(\<Sum>y\<leftarrow>append_if xs opt. impact y)
     = (\<Sum>y\<leftarrow>xs. impact y) + (case opt of None \<Rightarrow> 0 | Some f \<Rightarrow> impact f)"
  by (cases opt) (simp_all add: append_if_def)

lemma sum_impacts:
  "(\<Sum>factor\<leftarrow>analyze_retention_factors l. impact factor)
     = (\<Sum>opt\<leftarrow>[calculate_sodium_factor l, calculate_hydration_factor l,
                        calculate_sleep_factor l, calculate_stress_factor l].
          case opt of None \<Rightarrow> 0 | Some f \<Rightarrow> impact f)"
  by (simp add: analyze_retention_factors_def Let_def sum_sort_key sum_append_if)

lemma clamp_bounds: "60 \<le> min 95 (max 65 (x::real)) \<and> min 95 (max 65 x) \<le> 95"
  by simp

lemma retention_confidence_range:
  "60 \<le> retention_confidence fs a \<and> retention_confidence fs a \<le> 95"
proof (cases "map impact fs")
  case Nil
  then show ?thesis by (simp add: retention_confidence_def)
next
  case (Cons i rest)
  show ?thesis
    unfolding retention_confidence_def Cons list.case Let_def by (rule clamp_bounds)
qed

lemma sensitivity_value:
  "(case map_of BODY_TYPE_SENSITIVITY c of Some s \<Rightarrow> s | None \<Rightarrow> 1.0)
     = (case c of ECTOMORPH \<Rightarrow> 0.8 | MESOMORPH \<Rightarrow> 1.0 | ENDOMORPH \<Rightarrow> 1.3 | MIXED \<Rightarrow> 1.1)"
  by (cases c) (simp_all add: BODY_TYPE_SENSITIVITY_def)

lemma predict_retention_eq:
  "predict_retention l b =
     Inr \<lparr>level =
            (let adjusted_score =
               real_of_int (\<Sum>opt\<leftarrow>[calculate_sodium_factor l, calculate_hydration_factor l,
                        calculate_sleep_factor l, calculate_stress_factor l].
                   case opt of None \<Rightarrow> 0 | Some f \<Rightarrow> impact f)
               * (case classification b of ECTOMORPH \<Rightarrow> 0.8 | MESOMORPH \<Rightarrow> 1.0
                  | ENDOMORPH \<Rightarrow> 1.3 | MIXED \<Rightarrow> 1.1)
             in if adjusted_score \<le> 2 then LOW
                else if adjusted_score \<le> 5 then MODERATE else HIGH),
          rp_confidence = retention_confidence (analyze_retention_factors l)
            (real_of_int (\<Sum>factor\<leftarrow>analyze_retention_factors l. impact factor)
               * (case map_of BODY_TYPE_SENSITIVITY (classification b) of
                    Some s \<Rightarrow> s | None \<Rightarrow> 1.0)),
          primary_factor =
            (case analyze_retention_factors l of
               f # fs \<Rightarrow> foldl (\<lambda>best g. if impact g > impact best then g else best) f fs
             | [] \<Rightarrow> \<lparr>factor_type = HYDRATION, impact = 1\<rparr>),
          contributing_factors = analyze_retention_factors l\<rparr>"
proof -
  have rng: "0 \<le> retention_confidence fs a \<and> retention_confidence fs a \<le> 100" for fs a
    using retention_confidence_range [of fs a] by linarith
  show ?thesis
    unfolding predict_retention_def Let_def mk_RetentionPrediction_def
    by (simp only: rng sum_impacts sensitivity_value simp_thms if_True)
qed


lemma retention_scenario:
  assumes sod: "(\<Sum>item\<leftarrow>food_items l. sodium (nutritional_info item)) = 2500"
    and water: "water_intake l = 1000"
    and sleep: "sleep_data l = Some s" "sleep_quality s = 3" "sleep_duration s = 5"
    and stress: "filter (\<lambda>h. habit_type h = STRESS) (daily_habits l) = [h]" "habit_intensity h = 8"
    and body: "classification b = ENDOMORPH"
  shows "predict_retention l b =
     Inr \<lparr>level = HIGH, rp_confidence = 85,
          primary_factor = \<lparr>factor_type = SODIUM, impact = 3\<rparr>,
          contributing_factors =
            [\<lparr>factor_type = SODIUM, impact = 3\<rparr>, \<lparr>factor_type = HYDRATION, impact = 2\<rparr>,
             \<lparr>factor_type = SLEEP, impact = 2\<rparr>, \<lparr>factor_type = STRESS_FACTOR, impact = 2\<rparr>]\<rparr>"
proof -
  have f1: "calculate_sodium_factor l = Some \<lparr>factor_type = SODIUM, impact = 3\<rparr>"
    by (simp add: calculate_sodium_factor_def sod HIGH_SODIUM_THRESHOLD_def Let_def)
  have f2: "calculate_hydration_factor l = Some \<lparr>factor_type = HYDRATION, impact = 2\<rparr>"
    by (simp add: calculate_hydration_factor_def water LOW_WATER_THRESHOLD_def Let_def)
  have f3: "calculate_sleep_factor l = Some \<lparr>factor_type = SLEEP, impact = 2\<rparr>"
    by (simp add: calculate_sleep_factor_def sleep POOR_SLEEP_QUALITY_THRESHOLD_def
        POOR_SLEEP_DURATION_THRESHOLD_def Let_def)
  have f4: "calculate_stress_factor l = Some \<lparr>factor_type = STRESS_FACTOR, impact = 2\<rparr>"
    by (simp add: calculate_stress_factor_def stress HIGH_STRESS_INTENSITY_def Let_def)
  have fs: "analyze_retention_factors l =
      [\<lparr>factor_type = SODIUM, impact = 3\<rparr>, \<lparr>factor_type = HYDRATION, impact = 2\<rparr>,
       \<lparr>factor_type = SLEEP, impact = 2\<rparr>, \<lparr>factor_type = STRESS_FACTOR, impact = 2\<rparr>]"
    by (simp add: analyze_retention_factors_def f1 f2 f3 f4 append_if_def Let_def)
  show ?thesis
    by (simp add: predict_retention_def fs body BODY_TYPE_SENSITIVITY_def
        retention_confidence_def mk_RetentionPrediction_def Let_def)
qed

text \<open>
  C7.  \<^verbatim>\<open>predict_retention\<close> never raises.  Its level is \<^verbatim>\<open>LOW\<close> if the adjusted
  score is at most 2, \<^verbatim>\<open>MODERATE\<close> if it is at most 5 and \<^verbatim>\<open>HIGH\<close> otherwise, where
  the adjusted score is the sum of the impacts of the factors that qualified (sodium,
  hydration, sleep, stress; a signal that yields no factor counts 0) times the
  multiplier of the body type: ectomorph 0.8, mesomorph 1.0, mixed 1.1, endomorph 1.3.
  For an input with 2500 mg sodium in total, 1000 ml water, sleep of quality 3 and
  5 hours, one stress habit of intensity 8 and body type \<^verbatim>\<open>ENDOMORPH\<close>, the level is
  \<^verbatim>\<open>HIGH\<close>, there are at least 3 contributing factors, and the primary factor is one
  of them.
\<close>

theorem predict_retention_level:
  "(\<exists>r. predict_retention l b = Inr r
      \<and> level r =
          (let adjusted_score =
             real_of_int (\<Sum>opt\<leftarrow>[calculate_sodium_factor l, calculate_hydration_factor l,
                      calculate_sleep_factor l, calculate_stress_factor l].
                 case opt of None \<Rightarrow> 0 | Some f \<Rightarrow> impact f)
             * (case classification b of ECTOMORPH \<Rightarrow> 0.8 | MESOMORPH \<Rightarrow> 1.0
                | ENDOMORPH \<Rightarrow> 1.3 | MIXED \<Rightarrow> 1.1)
           in if adjusted_score \<le> 2 then LOW
              else if adjusted_score \<le> 5 then MODERATE else HIGH)
      \<and> contributing_factors r = analyze_retention_factors l)
   \<and> ((\<Sum>item\<leftarrow>food_items l. sodium (nutritional_info item)) = 2500
        \<and> water_intake l = 1000
        \<and> sleep_data l = Some s \<and> sleep_quality s = 3 \<and> sleep_duration s = 5
        \<and> filter (\<lambda>h. habit_type h = STRESS) (daily_habits l) = [h] \<and> habit_intensity h = 8
        \<and> classification b = ENDOMORPH
      \<longrightarrow> (\<exists>r. predict_retention l b = Inr r \<and> level r = HIGH
            \<and> 3 \<le> length (contributing_factors r)
            \<and> primary_factor r \<in> set (contributing_factors r)
            \<and> factor_type (primary_factor r) \<in> {SODIUM, HYDRATION, SLEEP, STRESS_FACTOR}))"
proof (intro conjI impI)
  show "\<exists>r. predict_retention l b = Inr r
      \<and> level r =
          (let adjusted_score =
             real_of_int (\<Sum>opt\<leftarrow>[calculate_sodium_factor l, calculate_hydration_factor l,
                      calculate_sleep_factor l, calculate_stress_factor l].
                 case opt of None \<Rightarrow> 0 | Some f \<Rightarrow> impact f)
             * (case classification b of ECTOMORPH \<Rightarrow> 0.8 | MESOMORPH \<Rightarrow> 1.0
                | ENDOMORPH \<Rightarrow> 1.3 | MIXED \<Rightarrow> 1.1)
           in if adjusted_score \<le> 2 then LOW
              else if adjusted_score \<le> 5 then MODERATE else HIGH)
      \<and> contributing_factors r = analyze_retention_factors l"
    unfolding predict_retention_eq [of l b] by simp
next
  assume a: "(\<Sum>item\<leftarrow>food_items l. sodium (nutritional_info item)) = 2500
        \<and> water_intake l = 1000
        \<and> sleep_data l = Some s \<and> sleep_quality s = 3 \<and> sleep_duration s = 5
        \<and> filter (\<lambda>h. habit_type h = STRESS) (daily_habits l) = [h] \<and> habit_intensity h = 8
        \<and> classification b = ENDOMORPH"
  have "predict_retention l b =
     Inr \<lparr>level = HIGH, rp_confidence = 85,
          primary_factor = \<lparr>factor_type = SODIUM, impact = 3\<rparr>,
          contributing_factors =
            [\<lparr>factor_type = SODIUM, impact = 3\<rparr>, \<lparr>factor_type = HYDRATION, impact = 2\<rparr>,
             \<lparr>factor_type = SLEEP, impact = 2\<rparr>, \<lparr>factor_type = STRESS_FACTOR, impact = 2\<rparr>]\<rparr>"
    using a by (intro retention_scenario) blast+
  then show "\<exists>r. predict_retention l b = Inr r \<and> level r = HIGH
            \<and> 3 \<le> length (contributing_factors r)
            \<and> primary_factor r \<in> set (contributing_factors r)
            \<and> factor_type (primary_factor r) \<in> {SODIUM, HYDRATION, SLEEP, STRESS_FACTOR}"
    by simp
qed

lemma retention_example_eval:
  "predict_retention
      \<lparr>food_items = [\<lparr>food_name = ''Salty snack'', serving_size = 100, food_unit = ''g'',
          nutritional_info = \<lparr>calories = 400, protein = 5, carbohydrates = 50, fat = 20,
            sodium = 2500, sugar = 5, fiber = 2, preservatives = [], processing_level = 4\<rparr>\<rparr>],
        water_intake = 1000,
        sleep_data = Some \<lparr>sleep_duration = 5, sleep_quality = 3, bedtime = 0, wake_time = 0,
          interruptions = 2, sleep_timestamp = 0\<rparr>,
        daily_habits = [\<lparr>habit_type = STRESS, habit_intensity = 8, habit_duration = None,
          habit_timing = None, habit_notes = None\<rparr>],
        input_timestamp = 0, input_user_id = ''user-123'', input_notes = None\<rparr>
      \<lparr>classification = ENDOMORPH, characteristics = [], body_user_id = ''user-123''\<rparr> =
     Inr \<lparr>level = HIGH, rp_confidence = 85,
          primary_factor = \<lparr>factor_type = SODIUM, impact = 3\<rparr>,
          contributing_factors =
            [\<lparr>factor_type = SODIUM, impact = 3\<rparr>, \<lparr>factor_type = HYDRATION, impact = 2\<rparr>,
             \<lparr>factor_type = SLEEP, impact = 2\<rparr>, \<lparr>factor_type = STRESS_FACTOR, impact = 2\<rparr>]\<rparr>"
  by (rule retention_scenario [where
        s = "\<lparr>sleep_duration = 5, sleep_quality = 3, bedtime = 0, wake_time = 0,
          interruptions = 2, sleep_timestamp = 0\<rparr>"
        and h = "\<lparr>habit_type = STRESS, habit_intensity = 8, habit_duration = None,
          habit_timing = None, habit_notes = None\<rparr>"]) simp_all

theorem predict_retention_level_witness:
  "predict_retention
      \<lparr>food_items = [\<lparr>food_name = ''Salty snack'', serving_size = 100, food_unit = ''g'',
          nutritional_info = \<lparr>calories = 400, protein = 5, carbohydrates = 50, fat = 20,
            sodium = 2500, sugar = 5, fiber = 2, preservatives = [], processing_level = 4\<rparr>\<rparr>],
        water_intake = 1000,
        sleep_data = Some \<lparr>sleep_duration = 5, sleep_quality = 3, bedtime = 0, wake_time = 0,
          interruptions = 2, sleep_timestamp = 0\<rparr>,
        daily_habits = [\<lparr>habit_type = STRESS, habit_intensity = 8, habit_duration = None,
          habit_timing = None, habit_notes = None\<rparr>],
        input_timestamp = 0, input_user_id = ''user-123'', input_notes = None\<rparr>
      \<lparr>classification = ENDOMORPH, characteristics = [], body_user_id = ''user-123''\<rparr> =
     Inr \<lparr>level = HIGH, rp_confidence = 85,
          primary_factor = \<lparr>factor_type = SODIUM, impact = 3\<rparr>,
          contributing_factors =
            [\<lparr>factor_type = SODIUM, impact = 3\<rparr>, \<lparr>factor_type = HYDRATION, impact = 2\<rparr>,
             \<lparr>factor_type = SLEEP, impact = 2\<rparr>, \<lparr>factor_type = STRESS_FACTOR, impact = 2\<rparr>]\<rparr>
   \<and> (3::nat) \<le> 4"
  using predict_retention_level [of
      "\<lparr>food_items = [\<lparr>food_name = ''Salty snack'', serving_size = 100, food_unit = ''g'',
          nutritional_info = \<lparr>calories = 400, protein = 5, carbohydrates = 50, fat = 20,
            sodium = 2500, sugar = 5, fiber = 2, preservatives = [], processing_level = 4\<rparr>\<rparr>],
        water_intake = 1000,
        sleep_data = Some \<lparr>sleep_duration = 5, sleep_quality = 3, bedtime = 0, wake_time = 0,
          interruptions = 2, sleep_timestamp = 0\<rparr>,
        daily_habits = [\<lparr>habit_type = STRESS, habit_intensity = 8, habit_duration = None,
          habit_timing = None, habit_notes = None\<rparr>],
        input_timestamp = 0, input_user_id = ''user-123'', input_notes = None\<rparr>"
      "\<lparr>classification = ENDOMORPH, characteristics = [], body_user_id = ''user-123''\<rparr>"
      "\<lparr>sleep_duration = 5, sleep_quality = 3, bedtime = 0, wake_time = 0,
          interruptions = 2, sleep_timestamp = 0\<rparr>"
      "\<lparr>habit_type = STRESS, habit_intensity = 8, habit_duration = None,
          habit_timing = None, habit_notes = None\<rparr>"]
  unfolding retention_example_eval
  by simp

end
